theory Spec2Isabelle
  imports Main
begin

section \<open>Python values and errors\<close>

text \<open>
  Exceptions of the Python code are values: \<open>TypeError\<close> and \<open>ValueError\<close> are raised by
  the built-ins (\<open>max\<close>, \<open>set\<close>, \<open>int\<close>, \<open><\<close>), \<open>KeyError\<close> by a dictionary lookup,
  \<open>IntegrityError\<close> by a commit that inserts a second row under a primary key,
  \<open>ApiError\<close> carries \<open>str(e)\<close> of an exception raised by the tweepy client, and
  \<open>SystemExit\<close> is what \<open>exit()\<close> raises.
\<close>

datatype error = TypeError | ValueError | KeyError | IntegrityError | ApiError string | SystemExit

section \<open>analytics/data.py: normalized entities and their merge\<close>

text \<open>
  \<open>Document\<close> of nlp/__init__.py: the content string and its tokens (the token texts
  only; the merge never looks inside a document).
\<close>

record document =
  content :: string
  tokens :: "string list"

datatype Platform = Twitter | Reddit

text \<open>
  Class \<open>User\<close>. Every column but the key and the platform is nullable, so it is an
  option; \<open>None\<close> is Python's \<open>None\<close>. Timestamps are seconds.
\<close>

record user =
  u_id :: string
  u_last_updated :: "int option"
  u_platform :: Platform
  u_name :: "string option"
  u_screen_name :: "string option"
  u_description :: "document option"
  u_location :: "document option"
  u_user_metadata :: "(string \<rightharpoonup> string) option"
  u_friends :: "int list option"
  u_friend_count :: "int option"
  u_follower_count :: "int option"

text \<open>
  \<open>User.update(self, other)\<close>; \<open>now\<close> is the value \<open>func.current_timestamp()\<close> takes.
  The result is \<open>self\<close> after the mutation.
\<close>

definition User_update :: "int \<Rightarrow> user \<Rightarrow> user \<Rightarrow> user" where
  "User_update now self other =
    (let merged_data0 = (case u_user_metadata self of None \<Rightarrow> Map.empty | Some m \<Rightarrow> Map.empty ++ m);
         merged_data = (case u_user_metadata other of None \<Rightarrow> merged_data0 | Some m \<Rightarrow> merged_data0 ++ m);
         s1 = (if u_friends self = None then self\<lparr>u_friends := u_friends other\<rparr> else self);
         s2 = (if u_friend_count s1 = None \<or> u_friend_count s1 \<noteq> u_friend_count other
               then s1\<lparr>u_friend_count := u_friend_count other\<rparr> else s1);
         s3 = (if u_follower_count s2 = None \<or> u_follower_count s2 \<noteq> u_follower_count other
               then s2\<lparr>u_follower_count := u_follower_count other\<rparr> else s2)
     in s3\<lparr>u_last_updated := Some now, u_user_metadata := Some merged_data\<rparr>)"

text \<open>Class \<open>Post\<close>; \<open>created_at\<close> is not nullable.\<close>

record post =
  p_id :: string
  p_user_id :: "string option"
  p_created_at :: int
  p_text :: "document option"
  p_hash_tags :: "string list option"
  p_source :: "string option"
  p_is_reply :: "bool option"
  p_favorite_count :: "int option"

text \<open>
  \<open>Post.update(self, other)\<close>. \<open>set(None)\<close> and \<open>max\<close> with a \<open>None\<close> argument raise
  \<open>TypeError\<close>. \<open>list(set(a).union(set(b)))\<close> is a duplicate-free list of the union in
  an order Python does not fix; the model takes \<open>remdups (a @ b)\<close>, and the theorems speak
  about its \<open>set\<close> only.
\<close>

definition Post_update :: "post \<Rightarrow> post \<Rightarrow> error + post" where
  "Post_update self other =
    (case p_hash_tags self of None \<Rightarrow> Inl TypeError | Some hs \<Rightarrow>
     (case p_hash_tags other of None \<Rightarrow> Inl TypeError | Some ho \<Rightarrow>
       (let s1 = self\<lparr>p_hash_tags := Some (remdups (hs @ ho))\<rparr>;
            s2 = (if p_text other \<noteq> None then s1\<lparr>p_text := p_text other\<rparr> else s1)
        in (case p_favorite_count s2 of None \<Rightarrow> Inl TypeError | Some a \<Rightarrow>
           (case p_favorite_count other of None \<Rightarrow> Inl TypeError | Some b \<Rightarrow>
              Inr (s2\<lparr>p_favorite_count := Some (max a b)\<rparr>))))))"

section \<open>crawler/data.py: queries, cursor records and the raw store\<close>

text \<open>
  A cursor field of a \<open>Query\<close> holds \<open>None\<close>, a string (the sentinels \<open>'undefined'\<close> and
  \<open>'finished'\<close>, or an id read back from the store) or the Python int the crawler assigns.
\<close>

datatype pyval = PNone | PStr string | PInt int

record query =
  q_id :: string
  q_text :: string
  q_since_id :: pyval
  q_max_id :: pyval

text \<open>Table \<open>query_metadata\<close>: one persisted cursor record per query id.\<close>

record query_metadata =
  qm_id :: string
  qm_since_id :: pyval
  qm_max_id :: pyval

definition to_metadata :: "query \<Rightarrow> query_metadata" where
  "to_metadata q = \<lparr>qm_id = q_id q, qm_since_id = q_since_id q, qm_max_id = q_max_id q\<rparr>"

datatype Api = TwitterStatus | TwitterUser

record crawl_task =
  t_language :: "string option"
  t_api :: Api
  t_name :: string
  t_timeout :: int
  t_options :: "string \<rightharpoonup> bool"
  t_queries :: "query list"

text \<open>
  The provider's JSON objects, with the keys the crawler reads: a user object (\<open>friends\<close>
  is a key the user crawler adds later) and a status object with its embedded user.
\<close>

record tw_user =
  tu_id :: int
  tu_description :: string
  tu_friends :: "int list option"

record status =
  st_id :: int
  st_full_text :: string
  st_lang :: string
  st_user :: tw_user

datatype json_doc = StatusDoc status | UserDoc tw_user

text \<open>
  Class \<open>CrawledObject\<close> as a row of table \<open>data\<close>, which is also the row object the
  session hands out for it: every column holds a value or NULL (\<open>None\<close>).
\<close>

record crawled_object =
  co_id :: string
  co_api :: Api
  co_expanded :: "bool option"
  co_document :: json_doc
  co_user_id :: "string option"
  co_detected_lang :: "string option"

text \<open>
  Class \<open>CrawledObject\<close> as an object that a constructor call builds and a caller passes
  to \<open>add\<close>. Every constructor call of the repository gives \<open>id\<close>, \<open>api\<close> and
  \<open>document\<close>; each of the other attributes is either not set, or set to a value, which
  may be \<open>None\<close>.
\<close>

datatype 'a attr = Unset | Given 'a

record py_object =
  ob_id :: string
  ob_api :: Api
  ob_expanded :: "bool option attr"
  ob_document :: json_doc
  ob_user_id :: "string option attr"
  ob_detected_lang :: "string option attr"

text \<open>A row object of the session passed as an object: all its attributes are set.\<close>

definition object_of_row :: "crawled_object \<Rightarrow> py_object" where
  "object_of_row row =
     \<lparr>ob_id = co_id row, ob_api = co_api row, ob_expanded = Given (co_expanded row),
      ob_document = co_document row, ob_user_id = Given (co_user_id row),
      ob_detected_lang = Given (co_detected_lang row)\<rparr>"

text \<open>
  \<open>CrawledDataStore\<close> at a point where no INSERT is queued. \<open>session_qm\<close> and
  \<open>session_data\<close> are the rows as the session's queries return them (the tables with the
  changes made to row objects), \<open>durable_qm\<close> and \<open>durable_data\<close> what the last commit
  wrote; \<open>commits\<close> counts the commits and \<open>closed\<close> records \<open>close()\<close>.
\<close>

record store =
  session_qm :: "string \<rightharpoonup> query_metadata"
  session_data :: "string \<rightharpoonup> crawled_object"
  durable_qm :: "string \<rightharpoonup> query_metadata"
  durable_data :: "string \<rightharpoonup> crawled_object"
  commits :: nat
  closed :: bool

text \<open>\<open>commit()\<close> with no INSERT queued: the changes to row objects are written.\<close>

definition commit :: "store \<Rightarrow> store" where
  "commit db = db\<lparr>durable_qm := session_qm db, durable_data := session_data db,
                   commits := Suc (commits db)\<rparr>"

definition close :: "store \<Rightarrow> store" where
  "close db = db\<lparr>closed := True\<rparr>"

text \<open>
  The session is created with \<open>autoflush=False\<close>: an object that \<open>merge\<close> adds as new
  is queued for INSERT until the next commit, and until then neither a query nor
  \<open>merge\<close> sees it. \<open>new_rows\<close> are the queued rows, oldest first.
\<close>

record session =
  base :: store
  new_rows :: "crawled_object list"

definition open_session :: "store \<Rightarrow> session" where
  "open_session d = \<lparr>base = d, new_rows = []\<rparr>"

text \<open>
  The row an INSERT of the object writes: an attribute that is unset or \<open>None\<close> is left
  out of the statement, so the column default \<open>expanded = False\<close> fills it and the
  columns without a default are NULL.
\<close>

definition insert_row :: "py_object \<Rightarrow> crawled_object" where
  "insert_row obj =
     \<lparr>co_id = ob_id obj, co_api = ob_api obj,
      co_expanded = (case ob_expanded obj of Given (Some b) \<Rightarrow> Some b | _ \<Rightarrow> Some False),
      co_document = ob_document obj,
      co_user_id = (case ob_user_id obj of Given v \<Rightarrow> v | Unset \<Rightarrow> None),
      co_detected_lang = (case ob_detected_lang obj of Given v \<Rightarrow> v | Unset \<Rightarrow> None)\<rparr>"

text \<open>
  \<open>merge\<close> onto an existing row object copies every attribute that is set on the object,
  a set \<open>None\<close> included, and leaves the others.
\<close>

definition update_row :: "py_object \<Rightarrow> crawled_object \<Rightarrow> crawled_object" where
  "update_row obj row =
     row\<lparr>co_api := ob_api obj,
         co_expanded := (case ob_expanded obj of Unset \<Rightarrow> co_expanded row | Given v \<Rightarrow> v),
         co_document := ob_document obj,
         co_user_id := (case ob_user_id obj of Unset \<Rightarrow> co_user_id row | Given v \<Rightarrow> v),
         co_detected_lang := (case ob_detected_lang obj of Unset \<Rightarrow> co_detected_lang row
                              | Given v \<Rightarrow> v)\<rparr>"

text \<open>
  \<open>session.merge(obj)\<close>: the row under the object's key is looked up among the rows the
  session sees; without one the object is queued as a new row.
\<close>

definition merge_object :: "py_object \<Rightarrow> session \<Rightarrow> session" where
  "merge_object obj s =
    (case session_data (base s) (ob_id obj) of
       None \<Rightarrow> s\<lparr>new_rows := new_rows s @ [insert_row obj]\<rparr>
     | Some row \<Rightarrow>
         s\<lparr>base := (base s)\<lparr>session_data := (session_data (base s))(ob_id obj \<mapsto> update_row obj row)\<rparr>\<rparr>)"

text \<open>
  \<open>CrawledDataStore.add\<close>. The method assigns \<open>obj.expanded\<close>, so the object is returned
  with the session.
\<close>

definition add :: "py_object \<Rightarrow> session \<Rightarrow> py_object \<times> session" where
  "add obj s =
    (let obj' = (if ob_api obj = TwitterUser
                 then (case session_data (base s) (ob_id obj) of
                         None \<Rightarrow> obj\<lparr>ob_expanded := Given (Some False)\<rparr>
                       | Some current \<Rightarrow> obj\<lparr>ob_expanded := Given (co_expanded current)\<rparr>)
                 else obj)
     in (obj', merge_object obj' s))"

text \<open>
  \<open>CrawledDataStore.commit\<close> with queued rows: they are inserted in order, and a row
  whose key the table already holds makes the commit raise.
\<close>

fun insert_rows :: "crawled_object list \<Rightarrow> (string \<rightharpoonup> crawled_object) \<Rightarrow> error + (string \<rightharpoonup> crawled_object)" where
  "insert_rows [] tbl = Inr tbl"
| "insert_rows (r # rs) tbl =
     (if tbl (co_id r) \<noteq> None then Inl IntegrityError else insert_rows rs (tbl(co_id r \<mapsto> r)))"

definition commit_session :: "session \<Rightarrow> error + store" where
  "commit_session s =
    (case insert_rows (new_rows s) (session_data (base s)) of
       Inl x \<Rightarrow> Inl x
     | Inr tbl \<Rightarrow> Inr (commit ((base s)\<lparr>session_data := tbl\<rparr>)))"

text \<open>\<open>add\<close> applied \<open>n\<close> times to the same object with no commit in between.\<close>

fun add_n :: "nat \<Rightarrow> py_object \<Rightarrow> session \<Rightarrow> py_object \<times> session" where
  "add_n 0 obj s = (obj, s)"
| "add_n (Suc n) obj s = (case add obj s of (obj', s') \<Rightarrow> add_n n obj' s')"

text \<open>
  \<open>add\<close> followed by \<open>commit\<close>, as \<open>__process_status\<close> pairs them, and that pair
  applied \<open>n\<close> times to the same object.
\<close>

definition add_commit :: "py_object \<Rightarrow> store \<Rightarrow> error + (py_object \<times> store)" where
  "add_commit obj d =
    (case add obj (open_session d) of
       (obj', s) \<Rightarrow> (case commit_session s of Inl x \<Rightarrow> Inl x | Inr d' \<Rightarrow> Inr (obj', d')))"

fun add_commit_n :: "nat \<Rightarrow> py_object \<Rightarrow> store \<Rightarrow> error + (py_object \<times> store)" where
  "add_commit_n 0 obj d = Inr (obj, d)"
| "add_commit_n (Suc n) obj d =
     (case add_commit obj d of Inl x \<Rightarrow> Inl x | Inr (obj', d') \<Rightarrow> add_commit_n n obj' d')"

text \<open>
  \<open>update_query_metadata\<close>: \<open>session.merge\<close> of a record with all three attributes set.
  Its only caller commits right after it, and \<open>restore_query_metadata\<close> commits right
  after its \<open>session.add\<close>, so a cursor record is written as it is merged.
\<close>

definition update_query_metadata :: "query_metadata \<Rightarrow> store \<Rightarrow> store" where
  "update_query_metadata qm db = db\<lparr>session_qm := (session_qm db)(qm_id qm \<mapsto> qm)\<rparr>"

text \<open>The body of the loop of \<open>restore_query_metadata\<close> for one query.\<close>

definition restore_query :: "query \<Rightarrow> store \<Rightarrow> query \<times> store" where
  "restore_query q db =
    (case session_qm db (qm_id (to_metadata q)) of
       Some qm \<Rightarrow>
         (let q1 = (if q_max_id q \<noteq> PNone \<and> q_max_id q = PStr ''undefined''
                    then q\<lparr>q_max_id := qm_max_id qm\<rparr>
                    else q\<lparr>q_max_id := PNone\<rparr>);
              q2 = (if q_max_id q1 \<noteq> PNone \<and> q_since_id q1 = PStr ''undefined''
                    then q1\<lparr>q_since_id := qm_since_id qm\<rparr>
                    else q1\<lparr>q_max_id := PNone\<rparr>)
          in (q2, db))
     | None \<Rightarrow>
         (let q1 = (if q_max_id q = PStr ''undefined'' then q\<lparr>q_max_id := PNone\<rparr> else q);
              q2 = (if q_since_id q1 = PStr ''undefined'' then q1\<lparr>q_since_id := PNone\<rparr> else q1)
          in (q2, commit (db\<lparr>session_qm := (session_qm db)(qm_id (to_metadata q2) \<mapsto> to_metadata q2)\<rparr>))))"

fun restore_queries :: "query list \<Rightarrow> store \<Rightarrow> query list \<times> store" where
  "restore_queries [] db = ([], db)"
| "restore_queries (q # qs) db =
     (case restore_query q db of (q', db') \<Rightarrow>
        (case restore_queries qs db' of (qs', db'') \<Rightarrow> (q' # qs', db'')))"

definition restore_query_metadata :: "crawl_task \<Rightarrow> store \<Rightarrow> crawl_task \<times> store" where
  "restore_query_metadata task db =
    (case restore_queries (t_queries task) db of (qs, db') \<Rightarrow> (task\<lparr>t_queries := qs\<rparr>, db'))"

text \<open>
  Opening the store in a new process (\<open>Project.crawl_db\<close> builds a fresh session): the
  session sees what was committed. Cursor values are read back as they were written (the
  database returns an int written to a string column as its decimal string, which
  \<open>int()\<close> reads as the same number, and which equals no sentinel).
\<close>

definition reopen :: "store \<Rightarrow> store" where
  "reopen db = db\<lparr>session_qm := durable_qm db, session_data := durable_data db, closed := False\<rparr>"

section \<open>Python built-ins used by the crawler\<close>

text \<open>\<open>str(n)\<close> of an int, as an f-string renders it.\<close>

definition digit_char :: "nat \<Rightarrow> char" where
  "digit_char d = ''0123456789'' ! d"

function str_of_nat :: "nat \<Rightarrow> string" where
  "str_of_nat n = (if n < 10 then [digit_char n] else str_of_nat (n div 10) @ [digit_char (n mod 10)])"
  by pat_completeness auto
termination
  by (relation "measure (\<lambda>n. n)") auto

definition str_of_int :: "int \<Rightarrow> string" where
  "str_of_int i = (if i < 0 then CHR ''-'' # str_of_nat (nat (- i)) else str_of_nat (nat i))"

definition py_str :: "pyval \<Rightarrow> string" where
  "py_str v = (case v of PNone \<Rightarrow> ''None'' | PStr s \<Rightarrow> s | PInt i \<Rightarrow> str_of_int i)"

text \<open>
  \<open>int(v)\<close>: \<open>TypeError\<close> on \<open>None\<close>, the int itself, or the value of a decimal literal
  with an optional sign; any other string is taken to raise \<open>ValueError\<close> (Python also
  accepts surrounding blanks and underscores, which no cursor the crawler writes has).
\<close>

definition digit_of :: "char \<Rightarrow> nat option" where
  "digit_of c = (let i = (of_char c :: nat) in if 48 \<le> i \<and> i \<le> 57 then Some (i - 48) else None)"

fun nat_of_digits :: "nat \<Rightarrow> string \<Rightarrow> nat option" where
  "nat_of_digits acc [] = Some acc"
| "nat_of_digits acc (c # cs) =
     (case digit_of c of None \<Rightarrow> None | Some d \<Rightarrow> nat_of_digits (10 * acc + d) cs)"

definition int_of_str :: "string \<Rightarrow> int option" where
  "int_of_str s =
    (case s of
       [] \<Rightarrow> None
     | c # cs \<Rightarrow>
         if c = CHR ''-'' then (if cs = [] then None else map_option (\<lambda>n. - int n) (nat_of_digits 0 cs))
         else if c = CHR ''+'' then (if cs = [] then None else map_option int (nat_of_digits 0 cs))
         else map_option int (nat_of_digits 0 s))"

definition py_int :: "pyval \<Rightarrow> error + int" where
  "py_int v =
    (case v of
       PNone \<Rightarrow> Inl TypeError
     | PInt i \<Rightarrow> Inr i
     | PStr s \<Rightarrow> (case int_of_str s of None \<Rightarrow> Inl ValueError | Some i \<Rightarrow> Inr i))"

text \<open>\<open>n < v\<close> and \<open>n > v\<close> for an int \<open>n\<close>: \<open>TypeError\<close> unless \<open>v\<close> is an int.\<close>

definition int_lt :: "int \<Rightarrow> pyval \<Rightarrow> error + bool" where
  "int_lt n v = (case v of PInt m \<Rightarrow> Inr (n < m) | _ \<Rightarrow> Inl TypeError)"

definition int_gt :: "int \<Rightarrow> pyval \<Rightarrow> error + bool" where
  "int_gt n v = (case v of PInt m \<Rightarrow> Inr (n > m) | _ \<Rightarrow> Inl TypeError)"

text \<open>\<open>sub in s\<close> for strings.\<close>

fun contains :: "string \<Rightarrow> string \<Rightarrow> bool" where
  "contains sub [] = (sub = [])"
| "contains sub (c # cs) = (take (length sub) (c # cs) = sub \<or> contains sub cs)"

section \<open>crawler/__init__.py and crawler/twitter.py\<close>

text \<open>
  The outside world of the crawler. \<open>detect_language\<close> is the language detector
  (\<open>'und'\<close> when it fails). \<open>search_tweets k rq\<close> is what the search call with keyword
  arguments \<open>rq\<close> does when \<open>k\<close> calls were made before it: it raises an exception with the
  given \<open>str(e)\<close> or returns a batch. \<open>clock k\<close> is \<open>datetime.now()\<close> at its \<open>k\<close>-th reading,
  in seconds. \<open>user_timeline\<close> and \<open>friends_of\<close> (the \<open>friends\<close> call) give, for a \<open>user_id\<close> argument, the pages the
  cursor yields and the exception, if any, raised when the page after them is requested.
\<close>

record request =
  rq_q :: string
  rq_count :: int
  rq_lang :: "string option"
  rq_tweet_mode :: string
  rq_include_entities :: bool
  rq_result_type :: string
  rq_max_id :: "int option"
  rq_since_id :: "int option"

record env =
  detect_language :: "string \<Rightarrow> string"
  search_tweets :: "nat \<Rightarrow> request \<Rightarrow> string + status list"
  clock :: "nat \<Rightarrow> int"
  user_timeline :: "string \<Rightarrow> status list list \<times> string option"
  friends_of :: "string \<Rightarrow> int list list \<times> string option"

text \<open>
  The state the crawl threads: the store, the search requests issued so far (oldest
  first), the durations passed to \<open>time.sleep\<close>, and the number of clock readings.
\<close>

record world =
  w_db :: store
  w_requests :: "request list"
  w_sleeps :: "int list"
  w_ticks :: nat

definition sleep :: "int \<Rightarrow> 'a world_scheme \<Rightarrow> 'a world_scheme" where
  "sleep t w = w\<lparr>w_sleeps := w_sleeps w @ [t]\<rparr>"

definition make_crawl_id :: "pyval \<Rightarrow> bool \<Rightarrow> string" where
  "make_crawl_id item_id is_status =
     (if is_status then ''Twitter::status::'' @ py_str item_id else ''Twitter::user::'' @ py_str item_id)"

text \<open>Class \<open>Crawler\<close> with the attributes \<open>TweepyCrawler.__init__\<close> adds.\<close>

record crawler =
  task :: crawl_task
  last_run :: "int option"
  historical :: bool
  ignore_retweets :: bool

definition TweepyCrawler_init :: "crawl_task \<Rightarrow> crawler" where
  "TweepyCrawler_init t =
     \<lparr>task = t, last_run = None,
      historical = (case t_options t ''historical'' of None \<Rightarrow> False | Some b \<Rightarrow> b),
      ignore_retweets = (case t_options t ''no-retweets'' of None \<Rightarrow> False | Some b \<Rightarrow> b)\<rparr>"

text \<open>
  \<open>Crawler.in_timeout\<close>. \<open>timedelta.seconds\<close> is the seconds component of the normalised
  difference, between 0 and 86399.
\<close>

definition in_timeout :: "env \<Rightarrow> crawler \<Rightarrow> world \<Rightarrow> bool \<times> world" where
  "in_timeout e c w =
    (case last_run c of
       None \<Rightarrow> (False, w)
     | Some t \<Rightarrow> (let current = clock e (w_ticks w)
                  in ((current - t) mod 86400 < t_timeout (task c), w\<lparr>w_ticks := Suc (w_ticks w)\<rparr>)))"

definition has_more :: "crawler \<Rightarrow> query \<Rightarrow> bool" where
  "has_more c q = (if historical c then q_max_id q = PNone \<or> q_max_id q \<noteq> PStr ''finished'' else True)"

text \<open>The keyword arguments \<open>__next_results\<close> builds; \<open>int()\<close> may raise.\<close>

definition tquery :: "crawler \<Rightarrow> query \<Rightarrow> string" where
  "tquery c q = (if ignore_retweets c then q_text q @ '' -filter:retweets'' else q_text q)"

definition search_options :: "crawler \<Rightarrow> query \<Rightarrow> error + request" where
  "search_options c q =
    (let opts = \<lparr>rq_q = tquery c q, rq_count = 500, rq_lang = t_language (task c),
                 rq_tweet_mode = ''extended'', rq_include_entities = True,
                 rq_result_type = ''recent'', rq_max_id = None, rq_since_id = None\<rparr>
     in if historical c
        then (if q_max_id q \<noteq> PNone \<and> q_max_id q \<noteq> PStr ''undefined''
              then (case py_int (q_max_id q) of
                      Inl x \<Rightarrow> Inl x
                    | Inr n \<Rightarrow> Inr (opts\<lparr>rq_max_id := Some (n - 1)\<rparr>))
              else Inr opts)
        else (if q_since_id q \<noteq> PNone \<and> q_since_id q \<noteq> PStr ''undefined''
              then (case py_int (q_since_id q) of
                      Inl x \<Rightarrow> Inl x
                    | Inr n \<Rightarrow> Inr (opts\<lparr>rq_since_id := Some (n + 1)\<rparr>))
              else Inr opts))"

text \<open>
  \<open>__next_results\<close>: the request is logged, then the API answers. A raised exception
  comes with the world it leaves.
\<close>

definition next_results :: "env \<Rightarrow> crawler \<Rightarrow> query \<Rightarrow> world \<Rightarrow> (error \<times> world) + (status list \<times> world)" where
  "next_results e c q w =
    (case search_options c q of
       Inl x \<Rightarrow> Inl (x, w)
     | Inr opts \<Rightarrow>
         (let w1 = w\<lparr>w_requests := w_requests w @ [opts]\<rparr>
          in case search_tweets e (length (w_requests w)) opts of
               Inl msg \<Rightarrow> Inl (ApiError msg, w1)
             | Inr results \<Rightarrow> Inr (results, w1)))"

text \<open>
  \<open>__process_status\<close>: \<open>accepted\<close> is the negation of the language test that makes it
  return early. Every \<open>add\<close> of the search crawler is followed by a commit in the same
  method and no exception is caught, so no INSERT is queued when the method is entered.
\<close>

definition status_lang :: "env \<Rightarrow> status \<Rightarrow> string" where
  "status_lang e s = (let lang = detect_language e (st_full_text s)
                      in if lang = ''und'' then st_lang s else lang)"

definition accepted :: "env \<Rightarrow> crawler \<Rightarrow> status \<Rightarrow> bool" where
  "accepted e c s = (\<not> (t_language (task c) \<noteq> None
                        \<and> Some (status_lang e s) \<noteq> t_language (task c)
                        \<and> status_lang e s \<noteq> ''und''))"

definition process_status :: "env \<Rightarrow> crawler \<Rightarrow> status \<Rightarrow> store \<Rightarrow> error + store" where
  "process_status e c s d =
    (let lang = status_lang e s
     in if t_language (task c) \<noteq> None \<and> Some lang \<noteq> t_language (task c) \<and> lang \<noteq> ''und''
        then Inr d
        else (let crawled_status =
                    \<lparr>ob_id = make_crawl_id (PInt (st_id s)) True, ob_api = TwitterStatus,
                     ob_expanded = Unset, ob_document = StatusDoc s, ob_user_id = Unset,
                     ob_detected_lang = Given (Some lang)\<rparr>;
                  s1 = snd (add crawled_status (open_session d));
                  crawled_user =
                    \<lparr>ob_id = make_crawl_id (PInt (tu_id (st_user s))) False, ob_api = TwitterUser,
                     ob_expanded = Unset, ob_document = UserDoc (st_user s), ob_user_id = Unset,
                     ob_detected_lang = Given (Some (detect_language e (tu_description (st_user s))))\<rparr>;
                  s2 = snd (add crawled_user s1)
              in commit_session s2))"

text \<open>
  The store \<open>__process_status\<close> leaves when it returns. It always returns: the keys of
  the two objects differ, so the rows it queues never collide.
\<close>

definition after_status :: "env \<Rightarrow> crawler \<Rightarrow> status \<Rightarrow> store \<Rightarrow> store" where
  "after_status e c s d = projr (process_status e c s d)"

definition update_next_and_since :: "crawler \<Rightarrow> status \<Rightarrow> pyval \<Rightarrow> pyval \<Rightarrow> error + (pyval \<times> pyval)" where
  "update_next_and_since c s next_max_id next_since_id =
    (case (if historical c
           then (if next_max_id = PNone then Inr True else int_lt (st_id s) next_max_id)
           else Inr False) of
       Inl x \<Rightarrow> Inl x
     | Inr b1 \<Rightarrow>
        (let nm = (if b1 then PInt (st_id s) else next_max_id)
         in case (if \<not> historical c
                  then (if next_since_id = PNone then Inr True else int_gt (st_id s) next_since_id)
                  else Inr False) of
              Inl x \<Rightarrow> Inl x
            | Inr b2 \<Rightarrow>
               (let ns = (if b2 then PInt (st_id s) else next_since_id)
                in Inr (if nm = PNone then PStr ''finished'' else nm,
                        if ns = PNone then PStr ''finished'' else ns))))"

text \<open>The loop of \<open>crawl\<close> over the statuses of one batch.\<close>

fun process_batch :: "env \<Rightarrow> crawler \<Rightarrow> status list \<Rightarrow> pyval \<Rightarrow> pyval \<Rightarrow> store
    \<Rightarrow> (error \<times> store) + (pyval \<times> pyval \<times> store)" where
  "process_batch e c [] next_max_id next_since_id d = Inr (next_max_id, next_since_id, d)"
| "process_batch e c (s # ss) next_max_id next_since_id d =
     (case process_status e c s d of
        Inl x \<Rightarrow> Inl (x, d)
      | Inr d' \<Rightarrow>
          (case update_next_and_since c s next_max_id next_since_id of
             Inl x \<Rightarrow> Inl (x, d')
           | Inr (nm, ns) \<Rightarrow> process_batch e c ss nm ns d'))"

text \<open>
  The body of the loop of \<open>crawl\<close> for one query that has more; the boolean says whether
  \<open>num_processed\<close> was incremented.
\<close>

definition crawl_query :: "env \<Rightarrow> crawler \<Rightarrow> query \<Rightarrow> world \<Rightarrow> (error \<times> world) + (query \<times> bool \<times> world)" where
  "crawl_query e c q w =
    (case next_results e c q w of
       Inl x \<Rightarrow> Inl x
     | Inr (results, w1) \<Rightarrow>
         if length results > 0
         then (case process_batch e c results PNone PNone (w_db w1) of
                 Inl (x, d) \<Rightarrow> Inl (x, w1\<lparr>w_db := d\<rparr>)
               | Inr (next_max_id, next_since_id, d) \<Rightarrow>
                   (let q' = (if historical c then q\<lparr>q_max_id := next_max_id\<rparr>
                              else if next_since_id \<noteq> PStr ''finished'' then q\<lparr>q_since_id := next_since_id\<rparr>
                              else q);
                        d' = commit (update_query_metadata (to_metadata q') d)
                    in Inr (q', True, sleep (t_timeout (task c)) (w1\<lparr>w_db := d'\<rparr>))))
         else Inr (q\<lparr>q_max_id := PStr ''finished''\<rparr>, False, w1))"

text \<open>
  The loop of \<open>crawl\<close> over \<open>filter(self._has_more, self.task.queries)\<close>; the queries are
  returned as the loop leaves them, with \<open>num_processed\<close>.
\<close>

fun crawl_queries :: "env \<Rightarrow> crawler \<Rightarrow> query list \<Rightarrow> nat \<Rightarrow> world
    \<Rightarrow> (error \<times> world) + (query list \<times> nat \<times> world)" where
  "crawl_queries e c [] num_processed w = Inr ([], num_processed, w)"
| "crawl_queries e c (q # qs) num_processed w =
     (if has_more c q
      then (case crawl_query e c q w of
              Inl x \<Rightarrow> Inl x
            | Inr (q', processed, w') \<Rightarrow>
                (case crawl_queries e c qs (if processed then num_processed + 1 else num_processed) w' of
                   Inl x \<Rightarrow> Inl x
                 | Inr (qs', n, w'') \<Rightarrow> Inr (q' # qs', n, w'')))
      else (case crawl_queries e c qs num_processed w of
              Inl x \<Rightarrow> Inl x
            | Inr (qs', n, w') \<Rightarrow> Inr (q # qs', n, w')))"

definition TweepyCrawler_crawl :: "env \<Rightarrow> crawler \<Rightarrow> world \<Rightarrow> (error \<times> world) + (bool \<times> crawler \<times> world)" where
  "TweepyCrawler_crawl e c w =
    (case crawl_queries e c (t_queries (task c)) 0 w of
       Inl x \<Rightarrow> Inl x
     | Inr (qs, num_processed, w') \<Rightarrow> Inr (num_processed > 0, c\<lparr>task := (task c)\<lparr>t_queries := qs\<rparr>\<rparr>, w'))"

text \<open>
  \<open>TwitterUserCrawler.crawl\<close>. It catches exceptions and goes on with the same session,
  so rows queued for INSERT while one user is crawled stay queued when that crawl fails:
  the state of the user crawler carries them in \<open>w_new\<close>. The object \<open>user\<close> of its loop
  is the session's own row object, so an assignment to it is an update of
  \<open>session_data\<close> under its key. Inside the \<open>try\<close> the API calls and the commit raise;
  an exception is its \<open>str(e)\<close>.
\<close>

record user_world = world +
  w_new :: "crawled_object list"

definition session_of :: "user_world \<Rightarrow> session" where
  "session_of w = \<lparr>base = w_db w, new_rows = w_new w\<rparr>"

definition with_session :: "session \<Rightarrow> user_world \<Rightarrow> user_world" where
  "with_session s w = w\<lparr>w_db := base s, w_new := new_rows s\<rparr>"

definition integrity_message :: string where
  "integrity_message = ''(sqlite3.IntegrityError) UNIQUE constraint failed: data.id''"

definition timeline_status :: "env \<Rightarrow> string \<Rightarrow> string \<Rightarrow> status \<Rightarrow> nat \<times> session \<Rightarrow> nat \<times> session" where
  "timeline_status e language user_id s cd =
    (case cd of (count, d) \<Rightarrow>
      (let lang = status_lang e s;
           crawled_status =
             \<lparr>ob_id = make_crawl_id (PInt (st_id s)) True, ob_api = TwitterStatus,
              ob_expanded = Unset, ob_document = StatusDoc s, ob_user_id = Given (Some user_id),
              ob_detected_lang = Given (Some lang)\<rparr>
       in if lang = language then (count + 1, snd (add crawled_status d)) else (count, d)))"

fun timeline_pages :: "env \<Rightarrow> string \<Rightarrow> string \<Rightarrow> status list list \<Rightarrow> string option \<Rightarrow> nat \<Rightarrow> user_world
    \<Rightarrow> (string \<times> user_world) + user_world" where
  "timeline_pages e language user_id [] exn count w =
     (case exn of None \<Rightarrow> Inr w | Some msg \<Rightarrow> Inl (msg, w))"
| "timeline_pages e language user_id (page # pages) exn count w =
     (case fold (timeline_status e language user_id) page (count, session_of w) of
        (count', d) \<Rightarrow>
          if count' \<ge> 1000 then Inr (with_session d w)
          else timeline_pages e language user_id pages exn count' (sleep 60 (with_session d w)))"

fun friends_pages :: "int list list \<Rightarrow> string option \<Rightarrow> int list \<Rightarrow> user_world
    \<Rightarrow> (string \<times> user_world) + (int list \<times> user_world)" where
  "friends_pages [] exn fs w = (case exn of None \<Rightarrow> Inr (fs, w) | Some msg \<Rightarrow> Inl (msg, w))"
| "friends_pages (page # pages) exn fs w = friends_pages pages exn (fs @ page) (sleep 60 w)"

definition set_user_expanded :: "string \<Rightarrow> store \<Rightarrow> store" where
  "set_user_expanded key d =
    (case session_data d key of
       None \<Rightarrow> d
     | Some user \<Rightarrow> d\<lparr>session_data := (session_data d)(key \<mapsto> user\<lparr>co_expanded := Some True\<rparr>)\<rparr>)"

definition set_user_friends :: "string \<Rightarrow> int list \<Rightarrow> store \<Rightarrow> store" where
  "set_user_friends key fs d =
    (case session_data d key of
       None \<Rightarrow> d
     | Some user \<Rightarrow>
         d\<lparr>session_data := (session_data d)(key \<mapsto>
              user\<lparr>co_document := (case co_document user of
                                       UserDoc u \<Rightarrow> UserDoc (u\<lparr>tu_friends := Some fs\<rparr>)
                                     | StatusDoc s \<Rightarrow> StatusDoc s)\<rparr>)\<rparr>)"

text \<open>
  The body of the \<open>try\<close> for the user row under \<open>key\<close>. Its last two statements are
  \<open>db.add(user)\<close> and \<open>db.commit()\<close>; a commit that raises leaves the session as it was.
\<close>

definition crawl_user :: "env \<Rightarrow> string \<Rightarrow> string \<Rightarrow> user_world \<Rightarrow> (string \<times> user_world) + user_world" where
  "crawl_user e language key w =
    (let user_id = drop (length ''Twitter::user::'') key
     in case user_timeline e user_id of
          (pages, exn) \<Rightarrow>
            (case timeline_pages e language user_id pages exn 0 w of
               Inl x \<Rightarrow> Inl x
             | Inr w1 \<Rightarrow>
                 (let w2 = w1\<lparr>w_db := set_user_expanded key (w_db w1)\<rparr>
                  in case friends_of e (make_crawl_id (PStr user_id) False) of
                       (fpages, fexn) \<Rightarrow>
                         (case friends_pages fpages fexn [] w2 of
                            Inl x \<Rightarrow> Inl x
                          | Inr (fs, w3) \<Rightarrow>
                              (let w4 = w3\<lparr>w_db := set_user_friends key fs (w_db w3)\<rparr>;
                                   s4 = (case session_data (w_db w4) key of
                                           None \<Rightarrow> session_of w4
                                         | Some user \<Rightarrow> snd (add (object_of_row user) (session_of w4)))
                               in case commit_session s4 of
                                    Inl x \<Rightarrow> Inl (integrity_message, with_session s4 w4)
                                  | Inr d \<Rightarrow> Inr (w4\<lparr>w_db := d, w_new := []\<rparr>))))))"

text \<open>
  The loop over the user rows with its \<open>except\<close> clause: a message with
  \<open>status code = 401\<close> or \<open>Not authorized\<close>, with \<open>status code = 404\<close>, or with
  \<open>TimeoutError\<close> lets the loop go on; any other closes the store and exits.
\<close>

fun crawl_users :: "env \<Rightarrow> string \<Rightarrow> string list \<Rightarrow> user_world \<Rightarrow> (error \<times> user_world) + user_world" where
  "crawl_users e language [] w = Inr w"
| "crawl_users e language (key # keys) w =
     (case session_data (w_db w) key of
        None \<Rightarrow> crawl_users e language keys w
      | Some user \<Rightarrow>
          if co_expanded user = Some True then crawl_users e language keys w
          else (case crawl_user e language key w of
                  Inr w' \<Rightarrow> crawl_users e language keys w'
                | Inl (msg, w') \<Rightarrow>
                    if contains ''status code = 401'' msg \<or> contains ''Not authorized'' msg
                    then crawl_users e language keys w'
                    else if contains ''status code = 404'' msg
                    then crawl_users e language keys w'
                    else if contains ''TimeoutError'' msg
                    then crawl_users e language keys (sleep (60 * 4) w')
                    else Inl (SystemExit, w'\<lparr>w_db := close (w_db w')\<rparr>)))"

text \<open>
  The query of \<open>TwitterUserCrawler.crawl\<close> selects the user rows with \<open>expanded\<close> false;
  \<open>row_order\<close> lists the keys of table \<open>data\<close> in the order the database returns rows.
\<close>

definition TwitterUserCrawler_crawl :: "env \<Rightarrow> string \<Rightarrow> string list \<Rightarrow> user_world \<Rightarrow> (error \<times> user_world) + user_world" where
  "TwitterUserCrawler_crawl e language row_order w =
     crawl_users e language
       (filter (\<lambda>k. case session_data (w_db w) k of
                       None \<Rightarrow> False
                     | Some r \<Rightarrow> co_api r = TwitterUser \<and> co_expanded r = Some False) row_order) w"

section \<open>crawler/__main__.py: the driver loop\<close>

text \<open>
  One pass of \<open>for crawler in crawlers\<close> in \<open>CrawlerApp.crawl\<close>, with \<open>next_step\<close> as
  accumulator. No exception is caught here or in \<open>TweepyCrawler.crawl\<close>.
\<close>

fun crawl_round :: "env \<Rightarrow> bool \<Rightarrow> crawler list \<Rightarrow> crawler list \<Rightarrow> world
    \<Rightarrow> (error \<times> world) + (crawler list \<times> world)" where
  "crawl_round e h [] next_step w = Inr (next_step, w)"
| "crawl_round e h (c # cs) next_step w =
     (let c1 = c\<lparr>historical := h\<rparr>
      in case in_timeout e c1 w of
           (True, w1) \<Rightarrow> crawl_round e h cs (next_step @ [c1]) w1
         | (False, w1) \<Rightarrow>
             (case TweepyCrawler_crawl e c1 w1 of
                Inl x \<Rightarrow> Inl x
              | Inr (has_work, c2, w2) \<Rightarrow>
                  if has_work
                  then crawl_round e h cs (next_step @ [c2\<lparr>last_run := Some (clock e (w_ticks w2))\<rparr>])
                         (w2\<lparr>w_ticks := Suc (w_ticks w2)\<rparr>)
                  else crawl_round e h cs next_step w2))"

text \<open>
  The \<open>while\<close> loop, which need not end: \<open>fuel\<close> bounds the number of rounds, and
  \<open>Running\<close> is the state of a loop that has rounds left to do. \<open>Raised\<close> is an exception
  leaving the loop, \<open>Finished\<close> the loop ending with an empty working set; \<open>final\<close> is
  the world an outcome carries.
\<close>

datatype outcome =
    is_Raised: Raised (failure: error) (final: world)
  | is_Finished: Finished (final: world)
  | is_Running: Running (working_set: "crawler list") (final: world)

fun crawl_loop :: "env \<Rightarrow> bool \<Rightarrow> nat \<Rightarrow> crawler list \<Rightarrow> world \<Rightarrow> outcome" where
  "crawl_loop e h 0 crawlers w = (if length crawlers > 0 then Running crawlers w else Finished w)"
| "crawl_loop e h (Suc fuel) crawlers w =
     (if length crawlers > 0
      then (case crawl_round e h crawlers [] w of
              Inl (x, w') \<Rightarrow> Raised x w'
            | Inr (next_step, w') \<Rightarrow> crawl_loop e h fuel next_step (w'\<lparr>w_db := commit (w_db w')\<rparr>))
      else Finished w)"

text \<open>
  \<open>Project.crawl_db\<close> opens the store and restores every task; \<open>CrawlerApp.crawl\<close> builds
  one crawler per task (\<open>Config\<close> names a crawler class for \<open>TwitterStatus\<close> only, so a
  \<open>TwitterUser\<close> task raises \<open>KeyError\<close>), runs the loop, and the \<open>with\<close> block closes
  the store on the way out.
\<close>

fun restore_tasks :: "crawl_task list \<Rightarrow> store \<Rightarrow> crawl_task list \<times> store" where
  "restore_tasks [] d = ([], d)"
| "restore_tasks (t # ts) d =
     (case restore_query_metadata t d of (t', d') \<Rightarrow>
        (case restore_tasks ts d' of (ts', d'') \<Rightarrow> (t' # ts', d'')))"

definition start_world :: "store \<Rightarrow> world" where
  "start_world d = \<lparr>w_db = d, w_requests = [], w_sleeps = [], w_ticks = 0\<rparr>"

definition start_user_world :: "store \<Rightarrow> user_world" where
  "start_user_world d = \<lparr>w_db = d, w_requests = [], w_sleeps = [], w_ticks = 0, w_new = []\<rparr>"

definition CrawlerApp_crawl :: "env \<Rightarrow> bool \<Rightarrow> nat \<Rightarrow> crawl_task list \<Rightarrow> store \<Rightarrow> outcome" where
  "CrawlerApp_crawl e h fuel tasks d =
    (case restore_tasks tasks (reopen d) of
       (tasks', d') \<Rightarrow>
         if \<exists>t \<in> set tasks'. t_api t \<noteq> TwitterStatus
         then Raised KeyError (start_world (close d'))
         else (case crawl_loop e h fuel (map TweepyCrawler_init tasks') (start_world d') of
                 Raised x w \<Rightarrow> Raised x (w\<lparr>w_db := close (w_db w)\<rparr>)
               | Finished w \<Rightarrow> Finished (w\<lparr>w_db := close (w_db w)\<rparr>)
               | Running cs w \<Rightarrow> Running cs w))"

section \<open>Example data\<close>

definition empty_store :: store where
  "empty_store = \<lparr>session_qm = Map.empty, session_data = Map.empty, durable_qm = Map.empty,
                   durable_data = Map.empty, commits = 0, closed = False\<rparr>"

definition alice :: tw_user where
  "alice = \<lparr>tu_id = 7, tu_description = ''likes cats'', tu_friends = None\<rparr>"

definition status1 :: status where
  "status1 = \<lparr>st_id = 41, st_full_text = ''a cat'', st_lang = ''en'', st_user = alice\<rparr>"

text \<open>
  The objects \<open>__process_status\<close> builds for this status and its user, and the row the
  first insert of the status object writes.
\<close>

definition status_object1 :: py_object where
  "status_object1 = \<lparr>ob_id = ''Twitter::status::41'', ob_api = TwitterStatus, ob_expanded = Unset,
     ob_document = StatusDoc status1, ob_user_id = Unset, ob_detected_lang = Given (Some ''en'')\<rparr>"

definition user_object1 :: py_object where
  "user_object1 = \<lparr>ob_id = ''Twitter::user::7'', ob_api = TwitterUser, ob_expanded = Unset,
     ob_document = UserDoc alice, ob_user_id = Unset, ob_detected_lang = Given (Some ''en'')\<rparr>"

definition status_row1 :: crawled_object where
  "status_row1 = \<lparr>co_id = ''Twitter::status::41'', co_api = TwitterStatus, co_expanded = Some False,
     co_document = StatusDoc status1, co_user_id = None, co_detected_lang = Some ''en''\<rparr>"


text \<open>
  The query \<open>cats\<close> of task \<open>t\<close> as \<open>Project\<close> builds it, and a store whose cursor record
  for it holds \<open>since_id = 100\<close> and no \<open>max_id\<close> (what an incremental crawl leaves).
\<close>

definition query_cats :: query where
  "query_cats = \<lparr>q_id = ''t::cats'', q_text = ''cats'', q_since_id = PStr ''undefined'',
                  q_max_id = PStr ''undefined''\<rparr>"

definition store_since_100 :: store where
  "store_since_100 =
     empty_store\<lparr>session_qm := Map.empty(''t::cats'' \<mapsto> \<lparr>qm_id = ''t::cats'', qm_since_id = PInt 100, qm_max_id = PNone\<rparr>),
                 durable_qm := Map.empty(''t::cats'' \<mapsto> \<lparr>qm_id = ''t::cats'', qm_since_id = PInt 100, qm_max_id = PNone\<rparr>)\<rparr>"

definition status2 :: status where
  "status2 = \<lparr>st_id = 38, st_full_text = ''un chat'', st_lang = ''fr'', st_user = alice\<rparr>"

text \<open>
  Task \<open>t\<close> with the single query \<open>cats\<close>, target language \<open>en\<close> and a timeout of 60
  seconds, and a second task \<open>u\<close> with the query \<open>dogs\<close>.
\<close>

definition task_t :: crawl_task where
  "task_t = \<lparr>t_language = Some ''en'', t_api = TwitterStatus, t_name = ''t'', t_timeout = 60,
             t_options = Map.empty, t_queries = [query_cats]\<rparr>"

definition query_dogs :: query where
  "query_dogs = \<lparr>q_id = ''u::dogs'', q_text = ''dogs'', q_since_id = PStr ''undefined'',
                  q_max_id = PStr ''undefined''\<rparr>"

definition task_u :: crawl_task where
  "task_u = \<lparr>t_language = Some ''en'', t_api = TwitterStatus, t_name = ''u'', t_timeout = 60,
             t_options = Map.empty, t_queries = [query_dogs]\<rparr>"

text \<open>
  Worlds: a detector that takes the language from the first letter (\<open>u\<close> for French),
  a clock that advances 1000 seconds per reading, and a search API that answers its
  first call with the two statuses and every later call with an empty page
  (\<open>env_one_batch\<close>), that always answers with an empty page (\<open>env_empty\<close>), or that
  always rejects the credentials (\<open>env_unauthorized\<close>).
\<close>

definition detect_first_letter :: "string \<Rightarrow> string" where
  "detect_first_letter s = (if take 1 s = ''u'' then ''fr'' else ''en'')"

definition env_one_batch :: env where
  "env_one_batch = \<lparr>detect_language = detect_first_letter,
     search_tweets = (\<lambda>k rq. if k = 0 then Inr [status1, status2] else Inr []),
     clock = (\<lambda>k. 1000 * int k),
     user_timeline = (\<lambda>u. ([], None)), friends_of = (\<lambda>u. ([], None))\<rparr>"

definition env_empty :: env where
  "env_empty = env_one_batch\<lparr>search_tweets := (\<lambda>k rq. Inr [])\<rparr>"

definition env_unauthorized :: env where
  "env_unauthorized = env_one_batch\<lparr>search_tweets := (\<lambda>k rq. Inl ''Twitter error response: status code = 401'')\<rparr>"

text \<open>The query \<open>cats\<close> as the restore leaves it when no record exists yet.\<close>

definition query_cats_new :: query where
  "query_cats_new = query_cats\<lparr>q_since_id := PNone, q_max_id := PNone\<rparr>"

definition crawler_t :: "bool \<Rightarrow> crawler" where
  "crawler_t h = (TweepyCrawler_init (task_t\<lparr>t_queries := [query_cats_new]\<rparr>))\<lparr>historical := h\<rparr>"

text \<open>
  A store with the rows of two users not yet expanded, and a world in which the
  timeline of user 7 is refused with status code 401 while that of user 8 has one page.
\<close>

definition bob :: tw_user where
  "bob = \<lparr>tu_id = 8, tu_description = ''likes dogs'', tu_friends = None\<rparr>"

definition user_row :: "string \<Rightarrow> tw_user \<Rightarrow> crawled_object" where
  "user_row key u = \<lparr>co_id = key, co_api = TwitterUser, co_expanded = Some False,
     co_document = UserDoc u, co_user_id = None, co_detected_lang = Some ''en''\<rparr>"

definition store_two_users :: store where
  "store_two_users =
     empty_store\<lparr>session_data := Map.empty(''Twitter::user::7'' \<mapsto> user_row ''Twitter::user::7'' alice,
                                            ''Twitter::user::8'' \<mapsto> user_row ''Twitter::user::8'' bob),
                 durable_data := Map.empty(''Twitter::user::7'' \<mapsto> user_row ''Twitter::user::7'' alice,
                                            ''Twitter::user::8'' \<mapsto> user_row ''Twitter::user::8'' bob)\<rparr>"

definition env_user_401 :: env where
  "env_user_401 = env_one_batch\<lparr>
     user_timeline := (\<lambda>u. if u = ''7'' then ([], Some ''Twitter error response: status code = 401'')
                            else ([[status1]], None)),
     friends_of := (\<lambda>u. ([[11, 12]], None))\<rparr>"

section \<open>Theorems\<close>

subsection \<open>Post merge\<close>

text \<open>
  Claim C4, as the spec states it, fails: the incoming text replaces the stored one
  whenever it is not \<open>None\<close>, also when it is an empty document. Here the stored text is
  \<open>hello\<close>, the incoming one is the empty document, and the merge stores the empty one.
\<close>

theorem Post_update_empty_text_counterexample:
  "Post_update
     \<lparr>p_id = ''Twitter::1'', p_user_id = None, p_created_at = 0,
      p_text = Some \<lparr>content = ''hello'', tokens = [''hello'']\<rparr>,
      p_hash_tags = Some [], p_source = None, p_is_reply = None, p_favorite_count = Some 5\<rparr>
     \<lparr>p_id = ''Twitter::1'', p_user_id = None, p_created_at = 0,
      p_text = Some \<lparr>content = [], tokens = []\<rparr>,
      p_hash_tags = Some [], p_source = None, p_is_reply = None, p_favorite_count = Some 3\<rparr>
   = Inr \<lparr>p_id = ''Twitter::1'', p_user_id = None, p_created_at = 0,
          p_text = Some \<lparr>content = [], tokens = []\<rparr>,
          p_hash_tags = Some [], p_source = None, p_is_reply = None, p_favorite_count = Some 5\<rparr>"
  by (simp add: Post_update_def)

text \<open>
  Claim C4, amended: when both posts carry a hashtag list and a favorite count, the merge
  succeeds; the stored hashtag set is the union of both, the stored text is the incoming
  text if that is not null (an empty document included) and the existing text otherwise,
  and the stored favorite count is the maximum of both.
\<close>

theorem Post_update_merge:
  assumes "p_hash_tags self = Some hs" and "p_hash_tags other = Some ho"
    and "p_favorite_count self = Some a" and "p_favorite_count other = Some b"
  shows "\<exists>r. Post_update self other = Inr r
     \<and> (\<exists>hr. p_hash_tags r = Some hr \<and> set hr = set hs \<union> set ho)
     \<and> p_text r = (if p_text other \<noteq> None then p_text other else p_text self)
     \<and> p_favorite_count r = Some (max a b)"
  using assms by (simp add: Post_update_def Let_def)

theorem Post_update_merge_witness:
  "\<exists>r. Post_update
     \<lparr>p_id = ''Twitter::1'', p_user_id = None, p_created_at = 0, p_text = None,
      p_hash_tags = Some [''a'', ''b''], p_source = None, p_is_reply = None,
      p_favorite_count = Some 5\<rparr>
     \<lparr>p_id = ''Twitter::1'', p_user_id = None, p_created_at = 0, p_text = None,
      p_hash_tags = Some [''b'', ''c''], p_source = None, p_is_reply = None,
      p_favorite_count = Some 3\<rparr> = Inr r
     \<and> (\<exists>hr. p_hash_tags r = Some hr \<and> set hr = {''a'', ''b'', ''c''})
     \<and> p_text r = None
     \<and> p_favorite_count r = Some 5"
  using Post_update_merge [of
     "\<lparr>p_id = ''Twitter::1'', p_user_id = None, p_created_at = 0, p_text = None,
      p_hash_tags = Some [''a'', ''b''], p_source = None, p_is_reply = None,
      p_favorite_count = Some 5\<rparr>" "[''a'', ''b'']"
     "\<lparr>p_id = ''Twitter::1'', p_user_id = None, p_created_at = 0, p_text = None,
      p_hash_tags = Some [''b'', ''c''], p_source = None, p_is_reply = None,
      p_favorite_count = Some 3\<rparr>" "[''b'', ''c'']" 5 3]
  by (simp add: insert_commute)

subsection \<open>User merge\<close>

text \<open>
  Claim C8, as the spec states it, fails in its second half: the merge does not take the
  incoming friends list whenever the stored one is empty. A stored empty list (what the
  ETL writes for a user document without a \<open>friends\<close> key) is not \<open>None\<close>, so it is
  kept and the incoming list is dropped.
\<close>

theorem User_update_empty_friends_counterexample:
  "u_friends (User_update 100
     \<lparr>u_id = ''Twitter::7'', u_last_updated = None, u_platform = Twitter, u_name = None,
      u_screen_name = None, u_description = None, u_location = None,
      u_user_metadata = None, u_friends = Some [], u_friend_count = Some 2,
      u_follower_count = Some 0\<rparr>
     \<lparr>u_id = ''Twitter::7'', u_last_updated = None, u_platform = Twitter, u_name = None,
      u_screen_name = None, u_description = None, u_location = None,
      u_user_metadata = None, u_friends = Some [11, 12], u_friend_count = Some 2,
      u_follower_count = Some 0\<rparr>) = Some []"
  by (simp add: User_update_def)

text \<open>
  Claim C8, amended: a stored friends list that is not null (populated or empty) is left
  unchanged by every merge, in particular by a snapshot whose friends field is null; the
  incoming friends list is taken exactly when the stored one is null.
\<close>

theorem User_update_friends:
  "u_friends (User_update now self other) =
     (case u_friends self of None \<Rightarrow> u_friends other | Some fs \<Rightarrow> Some fs)"
  by (simp add: User_update_def Let_def split: option.splits)

theorem User_update_friends_witness:
  "u_friends (User_update 100
     \<lparr>u_id = ''Twitter::7'', u_last_updated = None, u_platform = Twitter, u_name = None,
      u_screen_name = None, u_description = None, u_location = None,
      u_user_metadata = None, u_friends = Some [11, 12], u_friend_count = Some 2,
      u_follower_count = Some 0\<rparr>
     \<lparr>u_id = ''Twitter::7'', u_last_updated = None, u_platform = Twitter, u_name = None,
      u_screen_name = None, u_description = None, u_location = None,
      u_user_metadata = None, u_friends = None, u_friend_count = Some 3,
      u_follower_count = Some 1\<rparr>) = Some [11, 12]"
  using User_update_friends [of 100
     "\<lparr>u_id = ''Twitter::7'', u_last_updated = None, u_platform = Twitter, u_name = None,
      u_screen_name = None, u_description = None, u_location = None,
      u_user_metadata = None, u_friends = Some [11, 12], u_friend_count = Some 2,
      u_follower_count = Some 0\<rparr>"
     "\<lparr>u_id = ''Twitter::7'', u_last_updated = None, u_platform = Twitter, u_name = None,
      u_screen_name = None, u_description = None, u_location = None,
      u_user_metadata = None, u_friends = None, u_friend_count = Some 3,
      u_follower_count = Some 1\<rparr>"]
  by simp

subsection \<open>Restoring the cursor\<close>

text \<open>
  When both task-supplied fields are \<open>'undefined'\<close> and the persisted \<open>max_id\<close> is not
  null, the restore takes both persisted values and leaves the store alone.
\<close>

lemma restore_query_both_undefined:
  assumes "session_qm db (q_id q) = Some qm"
    and "q_since_id q = PStr ''undefined''" and "q_max_id q = PStr ''undefined''"
    and "qm_max_id qm \<noteq> PNone"
  shows "restore_query q db = (q\<lparr>q_since_id := qm_since_id qm, q_max_id := qm_max_id qm\<rparr>, db)"
  using assms by (simp add: restore_query_def to_metadata_def Let_def)

text \<open>
  Claim C1 at the input where the code departs from it: the persisted record of the query
  holds \<open>since_id = 100\<close> and a null \<open>max_id\<close>, and the task supplies \<open>'undefined'\<close> for
  both fields. The restore leaves \<open>since_id\<close> at \<open>'undefined'\<close> instead of 100: the
  persisted \<open>since_id\<close> is copied only when the restored \<open>max_id\<close> is not null.
\<close>

theorem restore_query_loses_since_id:
  "restore_query query_cats store_since_100 =
     (query_cats\<lparr>q_since_id := PStr ''undefined'', q_max_id := PNone\<rparr>, store_since_100)"
  by (simp add: restore_query_def to_metadata_def query_cats_def store_since_100_def empty_store_def)

subsection \<open>The raw store's upsert\<close>

lemma update_row_twice: "update_row obj (update_row obj row) = update_row obj row"
  by (cases row) (simp add: update_row_def split: attr.splits)

lemma update_row_insert_row:
  "ob_expanded obj \<noteq> Given None \<Longrightarrow> update_row obj (insert_row obj) = insert_row obj"
  by (simp add: update_row_def insert_row_def split: attr.splits option.splits)

lemma update_row_object_of_row: "update_row (object_of_row row) row = row"
  by (simp add: update_row_def object_of_row_def)

lemma co_id_insert_row: "co_id (insert_row obj) = ob_id obj"
  by (simp add: insert_row_def)

lemma co_expanded_update_row:
  "co_expanded (update_row obj row) = (case ob_expanded obj of Unset \<Rightarrow> co_expanded row | Given v \<Rightarrow> v)"
  by (simp add: update_row_def)

lemma co_expanded_insert_row:
  "co_expanded (insert_row obj) = (case ob_expanded obj of Given (Some b) \<Rightarrow> Some b | _ \<Rightarrow> Some False)"
  by (simp add: insert_row_def)

lemma fst_add_id: "ob_id (fst (add obj s)) = ob_id obj"
  by (simp add: add_def Let_def split: option.splits)

lemma fst_add_api: "ob_api (fst (add obj s)) = ob_api obj"
  by (simp add: add_def Let_def split: option.splits)

lemma fst_add_expanded:
  "ob_expanded (fst (add obj s)) =
     (if ob_api obj = TwitterUser
      then (case session_data (base s) (ob_id obj) of
              None \<Rightarrow> Given (Some False) | Some current \<Rightarrow> Given (co_expanded current))
      else ob_expanded obj)"
  by (simp add: add_def Let_def split: option.splits)

lemma snd_add: "snd (add obj s) = merge_object (fst (add obj s)) s"
  by (simp add: add_def Let_def)

lemma snd_add_open:
  "snd (add obj (open_session d)) =
     (case session_data d (ob_id obj) of
        None \<Rightarrow> \<lparr>base = d, new_rows = [insert_row (fst (add obj (open_session d)))]\<rparr>
      | Some row \<Rightarrow>
          \<lparr>base = d\<lparr>session_data := (session_data d)(ob_id obj \<mapsto>
                     update_row (fst (add obj (open_session d))) row)\<rparr>, new_rows = []\<rparr>)"
  by (simp add: snd_add merge_object_def open_session_def fst_add_id split: option.splits)

text \<open>The row that \<open>add\<close> followed by \<open>commit\<close> leaves under the object's key.\<close>

lemma add_commit_result:
  "add_commit obj d =
     Inr (fst (add obj (open_session d)),
          commit (d\<lparr>session_data := (session_data d)(ob_id obj \<mapsto>
            (case session_data d (ob_id obj) of
               None \<Rightarrow> insert_row (fst (add obj (open_session d)))
             | Some row \<Rightarrow> update_row (fst (add obj (open_session d))) row))\<rparr>))"
  by (simp add: add_commit_def case_prod_beta snd_add_open commit_session_def co_id_insert_row
         fst_add_id split: option.splits)

lemma add_commit_expanded:
  "add_commit obj d = Inr (obj', d') \<Longrightarrow>
   \<exists>r. durable_data d' (ob_id obj) = Some r \<and> session_data d' (ob_id obj) = Some r \<and>
     co_expanded r =
       (case session_data d (ob_id obj) of
          None \<Rightarrow> (if ob_api obj = TwitterUser then Some False
                   else (case ob_expanded obj of Given (Some b) \<Rightarrow> Some b | _ \<Rightarrow> Some False))
        | Some row \<Rightarrow> (if ob_api obj = TwitterUser then co_expanded row
                       else (case ob_expanded obj of Unset \<Rightarrow> co_expanded row | Given v \<Rightarrow> v)))"
  unfolding add_commit_result
  by (auto simp: commit_def co_expanded_insert_row co_expanded_update_row fst_add_expanded
      open_session_def split: option.splits)




subsection \<open>Repeating the upsert\<close>

lemma insert_rows_twice:
  "tbl (co_id r) = None \<Longrightarrow> co_id r' = co_id r \<Longrightarrow> insert_rows [r, r'] tbl = Inl IntegrityError"
  by simp

lemma add_unseen:
  assumes "session_data (base s) (ob_id obj) = None"
  shows "base (snd (add obj s)) = base s"
    and "new_rows (snd (add obj s)) = new_rows s @ [insert_row (fst (add obj s))]"
  using assms by (simp_all add: snd_add merge_object_def fst_add_id)

lemma add_twice_raises:
  assumes "session_data d (ob_id obj) = None"
  shows "commit_session (snd (add_n (Suc (Suc 0)) obj (open_session d))) = Inl IntegrityError"
proof -
  let ?s0 = "open_session d"
  let ?o1 = "fst (add obj ?s0)" and ?s1 = "snd (add obj ?s0)"
  let ?o2 = "fst (add ?o1 ?s1)" and ?s2 = "snd (add ?o1 ?s1)"
  have b0: "session_data (base ?s0) (ob_id obj) = None"
    using assms by (simp add: open_session_def)
  have s1: "base ?s1 = d" "new_rows ?s1 = [insert_row ?o1]"
    using add_unseen [OF b0] by (simp_all add: open_session_def)
  have b1: "session_data (base ?s1) (ob_id ?o1) = None"
    using assms s1 by (simp add: fst_add_id)
  have s2: "base ?s2 = d" "new_rows ?s2 = [insert_row ?o1, insert_row ?o2]"
    using add_unseen [OF b1] s1 by simp_all
  have "add_n (Suc (Suc 0)) obj ?s0 = (?o2, ?s2)"
    by (simp add: case_prod_beta)
  then show ?thesis
    using s2 assms by (simp add: commit_session_def co_id_insert_row fst_add_id)
qed

text \<open>
  After an \<open>add\<close> with its commit, the object and the store are a fixed point of the
  pair up to the count of commits.
\<close>

lemma add_commit_settled:
  assumes r: "session_data d (ob_id obj) = Some r" and u: "update_row obj r = r"
    and x: "ob_api obj = TwitterUser \<longrightarrow> ob_expanded obj = Given (co_expanded r)"
    and dd: "durable_data d = session_data d" and dq: "durable_qm d = session_qm d"
  shows "add_commit obj d = Inr (obj, d\<lparr>commits := Suc (commits d)\<rparr>)"
proof -
  have o: "fst (add obj (open_session d)) = obj"
    using r x by (cases obj) (simp add: add_def Let_def open_session_def)
  have "(session_data d)(ob_id obj \<mapsto> r) = session_data d"
    using r by (simp add: fun_upd_idem)
  then show ?thesis
    unfolding add_commit_result o using r u dd dq by (simp add: commit_def)
qed

lemma add_commit_n_settled:
  assumes r: "session_data d (ob_id obj) = Some r" and u: "update_row obj r = r"
    and x: "ob_api obj = TwitterUser \<longrightarrow> ob_expanded obj = Given (co_expanded r)"
    and dd: "durable_data d = session_data d" and dq: "durable_qm d = session_qm d"
  shows "add_commit_n n obj d = Inr (obj, d\<lparr>commits := commits d + n\<rparr>)"
  using assms
proof (induction n arbitrary: d)
  case 0
  then show ?case by simp
next
  case (Suc n)
  let ?d = "d\<lparr>commits := Suc (commits d)\<rparr>"
  have step: "add_commit obj d = Inr (obj, ?d)"
    using Suc.prems by (rule add_commit_settled)
  have "add_commit_n n obj ?d = Inr (obj, ?d\<lparr>commits := commits ?d + n\<rparr>)"
    using Suc.prems by (intro Suc.IH) simp_all
  then show ?case using step by simp
qed

lemma add_commit_settles:
  assumes h: "ob_api obj = TwitterUser \<or> ob_expanded obj \<noteq> Given None"
    and a: "add_commit obj d = Inr (o1, d1)"
  shows "\<exists>r. session_data d1 (ob_id o1) = Some r \<and> update_row o1 r = r
            \<and> (ob_api o1 = TwitterUser \<longrightarrow> ob_expanded o1 = Given (co_expanded r))"
    and "durable_data d1 = session_data d1" and "durable_qm d1 = session_qm d1"
    and "ob_id o1 = ob_id obj"
proof -
  have o1: "o1 = fst (add obj (open_session d))"
    using a unfolding add_commit_result by simp
  have d1: "d1 = commit (d\<lparr>session_data := (session_data d)(ob_id obj \<mapsto>
            (case session_data d (ob_id obj) of
               None \<Rightarrow> insert_row o1 | Some row \<Rightarrow> update_row o1 row))\<rparr>)"
    using a unfolding add_commit_result o1 by simp
  show id: "ob_id o1 = ob_id obj" by (simp add: o1 fst_add_id)
  show "durable_data d1 = session_data d1" "durable_qm d1 = session_qm d1"
    by (simp_all add: d1 commit_def)
  have e1: "ob_expanded o1 \<noteq> Given None \<or> (\<exists>row. session_data d (ob_id obj) = Some row)"
    using h by (auto simp: o1 fst_add_expanded open_session_def split: option.splits)
  show "\<exists>r. session_data d1 (ob_id o1) = Some r \<and> update_row o1 r = r
            \<and> (ob_api o1 = TwitterUser \<longrightarrow> ob_expanded o1 = Given (co_expanded r))"
  proof (cases "session_data d (ob_id obj)")
    case None
    then have ne: "ob_expanded o1 \<noteq> Given None" using e1 by simp
    have "session_data d1 (ob_id o1) = Some (insert_row o1)"
      using None by (simp add: d1 id commit_def)
    moreover have "update_row o1 (insert_row o1) = insert_row o1"
      using ne by (rule update_row_insert_row)
    moreover have "ob_api o1 = TwitterUser \<longrightarrow> ob_expanded o1 = Given (co_expanded (insert_row o1))"
      using None by (simp add: o1 fst_add_api fst_add_expanded open_session_def co_expanded_insert_row)
    ultimately show ?thesis by blast
  next
    case (Some row)
    have "session_data d1 (ob_id o1) = Some (update_row o1 row)"
      using Some by (simp add: d1 id commit_def)
    moreover have "update_row o1 (update_row o1 row) = update_row o1 row"
      by (rule update_row_twice)
    moreover have "ob_api o1 = TwitterUser \<longrightarrow> ob_expanded o1 = Given (co_expanded (update_row o1 row))"
      using Some by (simp add: o1 fst_add_api fst_add_expanded open_session_def co_expanded_update_row)
    ultimately show ?thesis by blast
  qed
qed

text \<open>
  The exclusion in the lemma above is needed: for a status object whose \<open>expanded\<close> is
  set to \<open>None\<close> the first \<open>add\<close> with its commit stores the column default
  \<open>False\<close>, and the second copies the \<open>None\<close> onto the row.
\<close>

lemma add_commit_none_flag_twice:
  "add_commit_n (Suc 0) (status_object1\<lparr>ob_expanded := Given None\<rparr>) empty_store
     = Inr (status_object1\<lparr>ob_expanded := Given None\<rparr>,
            empty_store\<lparr>session_data := Map.empty(''Twitter::status::41'' \<mapsto> status_row1),
                        durable_data := Map.empty(''Twitter::status::41'' \<mapsto> status_row1),
                        commits := 1\<rparr>)"
  "add_commit_n (Suc (Suc 0)) (status_object1\<lparr>ob_expanded := Given None\<rparr>) empty_store
     = Inr (status_object1\<lparr>ob_expanded := Given None\<rparr>,
            empty_store\<lparr>session_data := Map.empty(''Twitter::status::41'' \<mapsto> status_row1\<lparr>co_expanded := None\<rparr>),
                        durable_data := Map.empty(''Twitter::status::41'' \<mapsto> status_row1\<lparr>co_expanded := None\<rparr>),
                        commits := 2\<rparr>)"
  by (simp_all add: add_commit_def add_def Let_def merge_object_def insert_row_def update_row_def
      open_session_def commit_session_def commit_def empty_store_def status_object1_def
      status_row1_def)

text \<open>
  Claim C7, as the spec states it, fails: the session is created with autoflush off, so
  a second \<open>add\<close> of an object whose id has no row does not see the row the first one
  queued, and queues it again. One \<open>add\<close> of the user object followed by the commit
  stores its row; two followed by the commit raise \<open>IntegrityError\<close> and store
  nothing.
\<close>

theorem add_twice_counterexample:
  "session_data empty_store ''Twitter::user::7'' = None
   \<and> commit_session (snd (add_n (Suc 0) user_object1 (open_session empty_store)))
     = Inr (empty_store\<lparr>session_data := Map.empty(''Twitter::user::7'' \<mapsto> user_row ''Twitter::user::7'' alice),
                        durable_data := Map.empty(''Twitter::user::7'' \<mapsto> user_row ''Twitter::user::7'' alice),
                        commits := 1\<rparr>)
   \<and> commit_session (snd (add_n (Suc (Suc 0)) user_object1 (open_session empty_store)))
     = Inl IntegrityError"
  by (simp add: add_def Let_def merge_object_def insert_row_def open_session_def commit_session_def
      commit_def empty_store_def user_object1_def user_row_def)

text \<open>
  Claim C7, amended: raw ingestion is idempotent when every upsert is committed before
  the next one, as \<open>__process_status\<close> does. For an object that is a user object or
  whose \<open>expanded\<close> attribute is not set to \<open>None\<close>, and every \<open>N \<ge> 1\<close>, applying
  \<open>add\<close> with its commit \<open>N\<close> times succeeds and leaves the tables exactly as applying it
  once does, and a later snapshot of the same id whose \<open>expanded\<close> attribute is unset
  leaves the stored flag at the value it had. Without a commit in between, two \<open>add\<close>s of
  an object whose id has no row make the commit raise \<open>IntegrityError\<close>.
\<close>

theorem add_commit_idempotent:
  assumes "1 \<le> N" and "ob_api obj = TwitterUser \<or> ob_expanded obj \<noteq> Given None"
  shows "\<exists>o1 d1 dN. add_commit obj d = Inr (o1, d1) \<and> add_commit_n N obj d = Inr (o1, dN)
      \<and> session_data dN = session_data d1 \<and> durable_data dN = durable_data d1
      \<and> session_qm dN = session_qm d1 \<and> durable_qm dN = durable_qm d1
      \<and> (\<forall>o2. ob_id o2 = ob_id obj \<and> ob_expanded o2 = Unset \<longrightarrow>
            (\<exists>r o2' d2 r'. durable_data d1 (ob_id obj) = Some r
                 \<and> add_commit o2 d1 = Inr (o2', d2)
                 \<and> durable_data d2 (ob_id obj) = Some r' \<and> co_expanded r' = co_expanded r))
      \<and> (session_data d (ob_id obj) = None \<longrightarrow>
            commit_session (snd (add_n (Suc (Suc 0)) obj (open_session d))) = Inl IntegrityError)"
proof -
  obtain o1 d1 where a: "add_commit obj d = Inr (o1, d1)"
    using add_commit_result [of obj d] by blast
  obtain n where N: "N = Suc n" using assms(1) by (cases N) auto
  from add_commit_settles [OF assms(2) a] obtain r where
    r: "session_data d1 (ob_id o1) = Some r" "update_row o1 r = r"
       "ob_api o1 = TwitterUser \<longrightarrow> ob_expanded o1 = Given (co_expanded r)"
    and dd: "durable_data d1 = session_data d1" and dq: "durable_qm d1 = session_qm d1"
    and id: "ob_id o1 = ob_id obj"
    by blast
  have n: "add_commit_n N obj d = Inr (o1, d1\<lparr>commits := commits d1 + n\<rparr>)"
    using a add_commit_n_settled [OF r dd dq, of n] by (simp add: N)
  have later: "\<exists>r o2' d2 r'. durable_data d1 (ob_id obj) = Some r
                 \<and> add_commit o2 d1 = Inr (o2', d2)
                 \<and> durable_data d2 (ob_id obj) = Some r' \<and> co_expanded r' = co_expanded r"
    if o2: "ob_id o2 = ob_id obj \<and> ob_expanded o2 = Unset" for o2
  proof -
    obtain o2' d2 where a2: "add_commit o2 d1 = Inr (o2', d2)"
      using add_commit_result [of o2 d1] by blast
    from add_commit_expanded [OF a2] obtain r' where
      "durable_data d2 (ob_id o2) = Some r'" and
      "co_expanded r' =
         (case session_data d1 (ob_id o2) of
            None \<Rightarrow> (if ob_api o2 = TwitterUser then Some False
                     else (case ob_expanded o2 of Given (Some b) \<Rightarrow> Some b | _ \<Rightarrow> Some False))
          | Some row \<Rightarrow> (if ob_api o2 = TwitterUser then co_expanded row
                         else (case ob_expanded o2 of Unset \<Rightarrow> co_expanded row | Given v \<Rightarrow> v)))"
      by blast
    then have "durable_data d2 (ob_id obj) = Some r'" "co_expanded r' = co_expanded r"
      using o2 r(1) id by simp_all
    moreover have "durable_data d1 (ob_id obj) = Some r" using r(1) dd id by simp
    ultimately show ?thesis using a2 by blast
  qed
  have twice: "commit_session (snd (add_n (Suc (Suc 0)) obj (open_session d))) = Inl IntegrityError"
    if "session_data d (ob_id obj) = None"
    using that by (rule add_twice_raises)
  show ?thesis
    using a n later twice by (intro exI [of _ o1] exI [of _ d1] exI [of _ "d1\<lparr>commits := commits d1 + n\<rparr>"]) simp
qed

theorem add_commit_idempotent_witness:
  "\<exists>o1 d1 dN. add_commit user_object1 empty_store = Inr (o1, d1)
      \<and> add_commit_n 3 user_object1 empty_store = Inr (o1, dN)
      \<and> session_data dN = session_data d1 \<and> durable_data dN = durable_data d1
      \<and> commit_session (snd (add_n (Suc (Suc 0)) user_object1 (open_session empty_store)))
          = Inl IntegrityError"
proof -
  have h: "(1::nat) \<le> 3" by simp
  have u: "ob_api user_object1 = TwitterUser \<or> ob_expanded user_object1 \<noteq> Given None"
    by (simp add: user_object1_def)
  have e: "session_data empty_store (ob_id user_object1) = None"
    by (simp add: empty_store_def)
  from add_commit_idempotent [OF h u, of empty_store] e show ?thesis by blast
qed

subsection \<open>The next cursor of a fetched batch\<close>

lemma make_crawl_id_kinds: "make_crawl_id a True \<noteq> make_crawl_id b False"
  by (simp add: make_crawl_id_def)

lemma process_status_returns: "process_status e c s d = Inr (after_status e c s d)"
proof -
  have "\<exists>d'. process_status e c s d = Inr d'"
  proof (cases "accepted e c s")
    case False
    then show ?thesis by (simp add: process_status_def accepted_def Let_def)
  next
    case True
    let ?ks = "make_crawl_id (PInt (st_id s)) True"
    let ?ku = "make_crawl_id (PInt (tu_id (st_user s))) False"
    have ne: "?ks \<noteq> ?ku" "?ku \<noteq> ?ks" using make_crawl_id_kinds [of "PInt (st_id s)" "PInt (tu_id (st_user s))"] by auto
    show ?thesis
      using True ne
      by (cases "session_data d ?ks"; cases "session_data d ?ku")
         (simp_all add: process_status_def accepted_def Let_def add_def merge_object_def
            open_session_def commit_session_def insert_row_def)
  qed
  then show ?thesis by (auto simp: after_status_def)
qed

lemma update_next_and_since_historical:
  "historical c \<Longrightarrow> update_next_and_since c s PNone ns
      = Inr (PInt (st_id s), if ns = PNone then PStr ''finished'' else ns)"
  "historical c \<Longrightarrow> update_next_and_since c s (PInt m) ns
      = Inr (PInt (min (st_id s) m), if ns = PNone then PStr ''finished'' else ns)"
  by (auto simp: update_next_and_since_def int_lt_def Let_def min_def)

lemma update_next_and_since_incremental:
  "\<not> historical c \<Longrightarrow> update_next_and_since c s nm PNone
      = Inr (if nm = PNone then PStr ''finished'' else nm, PInt (st_id s))"
  "\<not> historical c \<Longrightarrow> update_next_and_since c s nm (PInt m)
      = Inr (if nm = PNone then PStr ''finished'' else nm, PInt (max (st_id s) m))"
  by (auto simp: update_next_and_since_def int_gt_def Let_def max_def)

lemma process_batch_historical:
  "historical c \<Longrightarrow> process_batch e c ss (PInt m) (PStr ''finished'') d
     = Inr (PInt (fold min (map st_id ss) m), PStr ''finished'', fold (after_status e c) ss d)"
  by (induction ss arbitrary: m d)
     (simp_all add: update_next_and_since_historical process_status_returns Let_def)

lemma process_batch_incremental:
  "\<not> historical c \<Longrightarrow> process_batch e c ss (PStr ''finished'') (PInt m) d
     = Inr (PStr ''finished'', PInt (fold max (map st_id ss) m), fold (after_status e c) ss d)"
  by (induction ss arbitrary: m d)
     (simp_all add: update_next_and_since_incremental process_status_returns Let_def)

lemma fold_min_Min: "fold min (map f ss) (f s) = Min (f ` set (s # ss))"
  using Min.set_eq_fold [of "f s" "map f ss"] by simp

lemma fold_max_Max: "fold max (map f ss) (f s) = Max (f ` set (s # ss))"
  using Max.set_eq_fold [of "f s" "map f ss"] by simp

lemma process_batch_start:
  "process_batch e c (s # ss) PNone PNone d =
     Inr (if historical c then PInt (Min (st_id ` set (s # ss))) else PStr ''finished'',
          if historical c then PStr ''finished'' else PInt (Max (st_id ` set (s # ss))),
          fold (after_status e c) (s # ss) d)"
proof (cases "historical c")
  case True
  then show ?thesis
    by (simp add: update_next_and_since_historical process_batch_historical Let_def fold_min_Min
        process_status_returns del: Min_insert set_simps)
next
  case False
  then show ?thesis
    by (simp add: update_next_and_since_incremental process_batch_incremental Let_def fold_max_Max
        process_status_returns del: Max_insert set_simps)
qed

lemma crawl_query_nonempty:
  assumes "next_results e c q w = Inr (results, w1)" and "results \<noteq> []"
  shows "crawl_query e c q w =
     (let q' = (if historical c then q\<lparr>q_max_id := PInt (Min (st_id ` set results))\<rparr>
                else q\<lparr>q_since_id := PInt (Max (st_id ` set results))\<rparr>)
      in Inr (q', True,
           sleep (t_timeout (task c))
             (w1\<lparr>w_db := commit (update_query_metadata (to_metadata q')
                                    (fold (after_status e c) results (w_db w1)))\<rparr>)))"
proof -
  obtain s ss where r: "results = s # ss" using assms(2) by (cases results) auto
  show ?thesis
    unfolding crawl_query_def assms(1) r
    by (simp add: process_batch_start Let_def del: process_batch.simps set_simps fold_simps)
qed

lemma crawl_query_empty:
  assumes "next_results e c q w = Inr ([], w1)"
  shows "crawl_query e c q w = Inr (q\<lparr>q_max_id := PStr ''finished''\<rparr>, False, w1)"
  by (simp add: crawl_query_def assms)

lemma next_results_world:
  assumes "next_results e c q w = Inr (results, w1)"
  shows "w_db w1 = w_db w" and "w_sleeps w1 = w_sleeps w" and "w_ticks w1 = w_ticks w"
    and "\<exists>rq. w_requests w1 = w_requests w @ [rq] \<and> rq_q rq = tquery c q"
proof -
  obtain opts where o: "search_options c q = Inr opts"
    using assms by (cases "search_options c q") (simp_all add: next_results_def)
  have w1: "w1 = w\<lparr>w_requests := w_requests w @ [opts]\<rparr>"
    using assms o by (simp add: next_results_def Let_def split: sum.splits)
  have "rq_q opts = tquery c q"
    using o by (auto simp: search_options_def Let_def split: if_splits sum.splits)
  then show "\<exists>rq. w_requests w1 = w_requests w @ [rq] \<and> rq_q rq = tquery c q"
    using w1 by simp
  show "w_db w1 = w_db w" "w_sleeps w1 = w_sleeps w" "w_ticks w1 = w_ticks w"
    using w1 by simp_all
qed

lemma next_results_examples:
  "next_results env_empty (crawler_t h) query_cats_new (start_world empty_store) =
     Inr ([], (start_world empty_store)\<lparr>w_requests :=
       [\<lparr>rq_q = ''cats'', rq_count = 500, rq_lang = Some ''en'', rq_tweet_mode = ''extended'',
         rq_include_entities = True, rq_result_type = ''recent'', rq_max_id = None,
         rq_since_id = None\<rparr>]\<rparr>)"
  "next_results env_one_batch (crawler_t h) query_cats_new (start_world empty_store) =
     Inr ([status1, status2], (start_world empty_store)\<lparr>w_requests :=
       [\<lparr>rq_q = ''cats'', rq_count = 500, rq_lang = Some ''en'', rq_tweet_mode = ''extended'',
         rq_include_entities = True, rq_result_type = ''recent'', rq_max_id = None,
         rq_since_id = None\<rparr>]\<rparr>)"
  by (simp_all add: Let_def next_results_def search_options_def crawler_t_def TweepyCrawler_init_def
      task_t_def query_cats_new_def query_cats_def tquery_def env_empty_def env_one_batch_def
      start_world_def)

text \<open>
  Claim C3, as the spec states it, fails for the incremental direction: an empty batch
  does not set the crawled cursor \<open>since_id\<close> to \<open>'finished'\<close>; it stays what it was
  (here null).
\<close>

theorem crawl_query_incremental_empty_counterexample:
  "\<not> historical (crawler_t False) \<and>
   crawl_query env_empty (crawler_t False) query_cats_new (start_world empty_store)
     = Inr (\<lparr>q_id = ''t::cats'', q_text = ''cats'', q_since_id = PNone,
             q_max_id = PStr ''finished''\<rparr>, False,
            (start_world empty_store)\<lparr>w_requests :=
               [\<lparr>rq_q = ''cats'', rq_count = 500, rq_lang = Some ''en'',
                 rq_tweet_mode = ''extended'', rq_include_entities = True,
                 rq_result_type = ''recent'', rq_max_id = None, rq_since_id = None\<rparr>]\<rparr>)"
proof -
  have "crawl_query env_empty (crawler_t False) query_cats_new (start_world empty_store)
          = Inr (query_cats_new\<lparr>q_max_id := PStr ''finished''\<rparr>, False,
                 (start_world empty_store)\<lparr>w_requests :=
                   [\<lparr>rq_q = ''cats'', rq_count = 500, rq_lang = Some ''en'',
                     rq_tweet_mode = ''extended'', rq_include_entities = True,
                     rq_result_type = ''recent'', rq_max_id = None, rq_since_id = None\<rparr>]\<rparr>)"
    by (rule crawl_query_empty [OF next_results_examples(1)])
  moreover have "query_cats_new\<lparr>q_max_id := PStr ''finished''\<rparr>
      = \<lparr>q_id = ''t::cats'', q_text = ''cats'', q_since_id = PNone, q_max_id = PStr ''finished''\<rparr>"
    by (simp add: query_cats_new_def query_cats_def)
  moreover have "\<not> historical (crawler_t False)"
    by (simp add: crawler_t_def)
  ultimately show ?thesis by simp
qed

text \<open>
  Claim C3, amended: a fetch that returns a batch never raises in the rest of the loop
  body. After a non-empty batch the \<open>max_id\<close> cursor is the minimum native id of the
  batch when crawling historically, and the \<open>since_id\<close> cursor is the maximum native id
  of the batch when crawling incrementally (the other field is unchanged). A batch with
  zero results sets \<open>max_id\<close> to \<open>'finished'\<close> when crawling historically and leaves
  \<open>since_id\<close> unchanged in either direction.
\<close>

theorem crawl_query_next_cursor:
  assumes "next_results e c q w = Inr (results, w1)"
  shows "\<exists>q' p w'. crawl_query e c q w = Inr (q', p, w') \<and>
     (results \<noteq> [] \<and> historical c \<longrightarrow>
        q_max_id q' = PInt (Min (st_id ` set results)) \<and> q_since_id q' = q_since_id q) \<and>
     (results \<noteq> [] \<and> \<not> historical c \<longrightarrow>
        q_since_id q' = PInt (Max (st_id ` set results)) \<and> q_max_id q' = q_max_id q) \<and>
     (results = [] \<and> historical c \<longrightarrow> q_max_id q' = PStr ''finished'') \<and>
     (results = [] \<longrightarrow> q_since_id q' = q_since_id q)"
proof (cases "results = []")
  case True
  with assms have "crawl_query e c q w = Inr (q\<lparr>q_max_id := PStr ''finished''\<rparr>, False, w1)"
    using crawl_query_empty [of e c q w w1] by simp
  with True show ?thesis by auto
next
  case False
  show ?thesis
    unfolding crawl_query_nonempty [OF assms False] Let_def using False by auto
qed

theorem crawl_query_next_cursor_witness:
  "\<exists>q' p w'. crawl_query env_one_batch (crawler_t True) query_cats_new (start_world empty_store)
                 = Inr (q', p, w')
      \<and> q_max_id q' = PInt 38 \<and> q_since_id q' = PNone"
  using crawl_query_next_cursor [OF next_results_examples(2) [of True]]
  by (simp add: crawler_t_def query_cats_new_def status1_def status2_def)

subsection \<open>What an empty batch writes\<close>






subsection \<open>Evaluating a whole run\<close>

lemmas run_defs = Let_def CrawlerApp_crawl_def reopen_def restore_query_metadata_def restore_query_def
  to_metadata_def commit_def close_def start_world_def TweepyCrawler_init_def TweepyCrawler_crawl_def
  in_timeout_def has_more_def tquery_def search_options_def next_results_def crawl_query_def
  process_status_def status_lang_def update_next_and_since_def int_lt_def int_gt_def py_int_def
  add_def merge_object_def insert_row_def update_row_def open_session_def commit_session_def
  update_query_metadata_def sleep_def make_crawl_id_def py_str_def str_of_int_def digit_char_def
  env_one_batch_def env_empty_def env_unauthorized_def detect_first_letter_def task_t_def task_u_def
  query_cats_def query_dogs_def empty_store_def status1_def status2_def alice_def

subsection \<open>Commits\<close>

lemma commits_after_status:
  "commits (after_status e c s d) = commits d + (if accepted e c s then 1 else 0)"
proof (cases "accepted e c s")
  case False
  then show ?thesis by (simp add: after_status_def process_status_def accepted_def Let_def)
next
  case True
  let ?ks = "make_crawl_id (PInt (st_id s)) True"
  let ?ku = "make_crawl_id (PInt (tu_id (st_user s))) False"
  have ne: "?ks \<noteq> ?ku" "?ku \<noteq> ?ks" using make_crawl_id_kinds [of "PInt (st_id s)" "PInt (tu_id (st_user s))"] by auto
  show ?thesis
    using True ne
    by (cases "session_data d ?ks"; cases "session_data d ?ku")
       (simp_all add: after_status_def process_status_def accepted_def Let_def add_def
          merge_object_def open_session_def commit_session_def insert_row_def commit_def)
qed

lemma commits_fold_after_status:
  "commits (fold (after_status e c) ss d) = commits d + length (filter (accepted e c) ss)"
  by (induction ss arbitrary: d) (simp_all add: commits_after_status)

lemma commits_crawl_query:
  assumes "next_results e c q w = Inr (results, w1)"
  shows "\<exists>q' p w'. crawl_query e c q w = Inr (q', p, w') \<and>
     commits (w_db w') = commits (w_db w)
        + (if results = [] then 0 else length (filter (accepted e c) results) + 1)"
proof (cases "results = []")
  case True
  with assms have "crawl_query e c q w = Inr (q\<lparr>q_max_id := PStr ''finished''\<rparr>, False, w1)"
    using crawl_query_empty [of e c q w w1] by simp
  with True next_results_world(1) [OF assms] show ?thesis by auto
next
  case False
  show ?thesis
    unfolding crawl_query_nonempty [OF assms False] Let_def
    using False next_results_world(1) [OF assms]
    by (auto simp: sleep_def commit_def update_query_metadata_def commits_fold_after_status)
qed

lemma crawl_loop_round:
  assumes "crawlers \<noteq> []" and "crawl_round e h crawlers [] w = Inr (next_step, w')"
  shows "crawl_loop e h (Suc fuel) crawlers w
           = crawl_loop e h fuel next_step (w'\<lparr>w_db := commit (w_db w')\<rparr>)"
  using assms by simp

text \<open>
  Claim C5, as the spec states it, fails: commits are issued inside a round. One round
  over the single crawler of task \<open>t\<close>, whose fetch returns two statuses of which one
  passes the language filter, commits three times: for the stored status, for the batch,
  and at the end of the round.
\<close>

theorem crawl_loop_commits_counterexample:
  "commits (w_db (start_world empty_store)) = 0
   \<and> is_Running (crawl_loop env_one_batch True (Suc 0) [crawler_t True] (start_world empty_store))
   \<and> commits (w_db (final (crawl_loop env_one_batch True (Suc 0) [crawler_t True]
                             (start_world empty_store)))) = 3"
  by (simp add: run_defs crawler_t_def query_cats_new_def)

text \<open>
  Claim C5, amended: the driver loop itself commits exactly once per completed round,
  after its pass over the working set; commits are not confined to that. Inside the
  round every status that passes the language filter is committed when it is stored and
  every non-empty batch is followed by a commit: a fetch that returns a batch raises the
  number of commits by the number of accepted statuses plus one when the batch is not
  empty, and by nothing when it is empty.
\<close>

theorem commits_per_fetch_and_round:
  "(next_results e c q w = Inr (results, w1) \<longrightarrow>
      (\<exists>q' p w'. crawl_query e c q w = Inr (q', p, w') \<and>
         commits (w_db w') = commits (w_db w)
            + (if results = [] then 0 else length (filter (accepted e c) results) + 1)))
   \<and> (crawlers \<noteq> [] \<and> crawl_round e h crawlers [] w2 = Inr (next_step, w3) \<longrightarrow>
        crawl_loop e h (Suc fuel) crawlers w2
          = crawl_loop e h fuel next_step (w3\<lparr>w_db := commit (w_db w3)\<rparr>)
        \<and> commits (commit (w_db w3)) = Suc (commits (w_db w3)))"
  using commits_crawl_query [of e c q w results w1] crawl_loop_round [of crawlers e h w2 next_step w3 fuel]
  by (simp add: commit_def)

theorem commits_per_fetch_and_round_witness:
  "\<exists>q' p w'. crawl_query env_one_batch (crawler_t True) query_cats_new (start_world empty_store)
                = Inr (q', p, w')
      \<and> commits (w_db w') = 2"
proof -
  have acc: "filter (accepted env_one_batch (crawler_t True)) [status1, status2] = [status1]"
    by (simp add: Let_def accepted_def status_lang_def env_one_batch_def detect_first_letter_def
        status1_def status2_def crawler_t_def TweepyCrawler_init_def task_t_def)
  have z: "commits (w_db (start_world empty_store)) = 0"
    by (simp add: start_world_def empty_store_def)
  have "\<exists>q' p w'. crawl_query env_one_batch (crawler_t True) query_cats_new (start_world empty_store)
                = Inr (q', p, w')
      \<and> commits (w_db w') = commits (w_db (start_world empty_store))
           + (length (filter (accepted env_one_batch (crawler_t True)) [status1, status2]) + 1)"
    using commits_per_fetch_and_round [of env_one_batch "crawler_t True" query_cats_new
        "start_world empty_store" "[status1, status2]" _ "[]"]
      next_results_examples(2) [of True]
    by (simp del: filter.simps)
  then show ?thesis unfolding acc z by (simp add: numeral_2_eq_2)
qed

subsection \<open>Finished queries\<close>

lemma has_more_historical:
  "historical c \<Longrightarrow> has_more c q = (q_max_id q \<noteq> PStr ''finished'')"
  by (auto simp: has_more_def)

lemma crawl_query_requests:
  assumes "crawl_query e c q w = Inr (q', p, w')"
  shows "\<exists>rq. w_requests w' = w_requests w @ [rq] \<and> rq_q rq = tquery c q"
proof -
  obtain results w1 where nr: "next_results e c q w = Inr (results, w1)"
    using assms by (cases "next_results e c q w") (auto simp: crawl_query_def)
  have "w_requests w' = w_requests w1"
  proof (cases "results = []")
    case True
    with nr assms show ?thesis by (simp add: crawl_query_def)
  next
    case False
    from assms show ?thesis
      unfolding crawl_query_nonempty [OF nr False] Let_def by (auto simp: sleep_def)
  qed
  with next_results_world(4) [OF nr] show ?thesis by simp
qed

lemma crawl_queries_requests:
  "crawl_queries e c qs n w = Inr (qs', n', w') \<Longrightarrow>
     \<exists>rqs. w_requests w' = w_requests w @ rqs
          \<and> map rq_q rqs = map (tquery c) (filter (has_more c) qs)"
proof (induction qs arbitrary: n w qs' n' w')
  case Nil
  then show ?case by simp
next
  case (Cons q qs)
  show ?case
  proof (cases "has_more c q")
    case True
    with Cons.prems obtain q1 p w1 qs1 where
      step: "crawl_query e c q w = Inr (q1, p, w1)" and
      rec: "crawl_queries e c qs (if p then n + 1 else n) w1 = Inr (qs1, n', w')"
      by (auto split: sum.splits prod.splits)
    from crawl_query_requests [OF step] obtain rq where
      rq: "w_requests w1 = w_requests w @ [rq]" "rq_q rq = tquery c q" by blast
    from Cons.IH [OF rec] obtain rqs where
      rqs: "w_requests w' = w_requests w1 @ rqs"
           "map rq_q rqs = map (tquery c) (filter (has_more c) qs)" by blast
    have "w_requests w' = w_requests w @ (rq # rqs)" using rq(1) rqs(1) by simp
    moreover have "map rq_q (rq # rqs) = map (tquery c) (filter (has_more c) (q # qs))"
      using True rq(2) rqs(2) by simp
    ultimately show ?thesis by blast
  next
    case False
    with Cons.prems obtain qs1 where rec: "crawl_queries e c qs n w = Inr (qs1, n', w')"
      by (auto split: sum.splits prod.splits)
    from Cons.IH [OF rec] False show ?thesis by simp
  qed
qed

lemma crawl_queries_keeps_finished:
  "crawl_queries e c qs n w = Inr (qs', n', w') \<Longrightarrow> historical c \<Longrightarrow>
     list_all2 (\<lambda>q q'. q_max_id q = PStr ''finished'' \<longrightarrow> q' = q) qs qs'"
proof (induction qs arbitrary: n w qs' n' w')
  case Nil
  then show ?case by simp
next
  case (Cons q qs)
  show ?case
  proof (cases "has_more c q")
    case True
    with Cons.prems(1) obtain q1 p w1 qs1 where
      rec: "crawl_queries e c qs (if p then n + 1 else n) w1 = Inr (qs1, n', w')" and
      qs': "qs' = q1 # qs1"
      by (auto split: sum.splits prod.splits)
    from True Cons.prems(2) have "q_max_id q \<noteq> PStr ''finished''"
      by (simp add: has_more_historical)
    with Cons.IH [OF rec Cons.prems(2)] qs' show ?thesis by simp
  next
    case False
    with Cons.prems(1) obtain qs1 where rec: "crawl_queries e c qs n w = Inr (qs1, n', w')"
      and qs': "qs' = q # qs1"
      by (auto split: sum.splits prod.splits)
    with Cons.IH [OF rec Cons.prems(2)] show ?thesis by simp
  qed
qed

text \<open>
  Claim C6, as the spec states it, fails across runs. In a first historical run over
  task \<open>t\<close> the second fetch of query \<open>cats\<close> (below id 38) returns an empty page, the
  query becomes finished and the run ends; the committed cursor record still holds
  \<open>max_id = 38\<close>. A second run on the store the first one left restores that cursor and
  issues a fetch request for the query again.
\<close>

theorem finished_reopened_counterexample:
  "is_Finished (CrawlerApp_crawl env_one_batch True (Suc (Suc (Suc 0))) [task_t] empty_store)
   \<and> map rq_max_id (w_requests (final
         (CrawlerApp_crawl env_one_batch True (Suc (Suc (Suc 0))) [task_t] empty_store)))
       = [None, Some 37]
   \<and> durable_qm (w_db (final
         (CrawlerApp_crawl env_one_batch True (Suc (Suc (Suc 0))) [task_t] empty_store))) ''t::cats''
       = Some \<lparr>qm_id = ''t::cats'', qm_since_id = PNone, qm_max_id = PInt 38\<rparr>
   \<and> is_Finished (CrawlerApp_crawl env_empty True (Suc (Suc (Suc 0))) [task_t]
         (w_db (final (CrawlerApp_crawl env_one_batch True (Suc (Suc (Suc 0))) [task_t] empty_store))))
   \<and> map rq_q (w_requests (final
         (CrawlerApp_crawl env_empty True (Suc (Suc (Suc 0))) [task_t]
           (w_db (final (CrawlerApp_crawl env_one_batch True (Suc (Suc (Suc 0))) [task_t] empty_store))))))
       = [''cats'']"
  by (simp add: run_defs)

text \<open>
  Claim C6, amended: within one process, for a crawler in historical mode: a fetch that
  returns an empty page sets the query's \<open>max_id\<close> to \<open>'finished'\<close>, after which the
  query no longer has more; and every crawl invocation that returns leaves each finished
  query of the task as it is and issues exactly one fetch request for each query that
  is not finished, in order, and none for a finished one. (The finished state is not
  written to the store, so a later run fetches the query again.)
\<close>

theorem finished_query_not_fetched:
  assumes "historical c"
  shows "(next_results e c q w = Inr ([], w1) \<longrightarrow>
            (\<exists>q'. crawl_query e c q w = Inr (q', False, w1)
                 \<and> q_max_id q' = PStr ''finished'' \<and> \<not> has_more c q'))
     \<and> (TweepyCrawler_crawl e c w = Inr (b, c', w') \<longrightarrow>
            historical c'
          \<and> list_all2 (\<lambda>q q'. q_max_id q = PStr ''finished'' \<longrightarrow> q' = q)
                (t_queries (task c)) (t_queries (task c'))
          \<and> (\<exists>rqs. w_requests w' = w_requests w @ rqs
                 \<and> map rq_q rqs = map (tquery c)
                      (filter (\<lambda>q. q_max_id q \<noteq> PStr ''finished'') (t_queries (task c)))))"
proof -
  have a: "\<exists>q'. crawl_query e c q w = Inr (q', False, w1)
                 \<and> q_max_id q' = PStr ''finished'' \<and> \<not> has_more c q'"
    if "next_results e c q w = Inr ([], w1)"
    using crawl_query_empty [OF that] assms by (simp add: has_more_historical)
  have b: "historical c'
          \<and> list_all2 (\<lambda>q q'. q_max_id q = PStr ''finished'' \<longrightarrow> q' = q)
                (t_queries (task c)) (t_queries (task c'))
          \<and> (\<exists>rqs. w_requests w' = w_requests w @ rqs
                 \<and> map rq_q rqs = map (tquery c)
                      (filter (\<lambda>q. q_max_id q \<noteq> PStr ''finished'') (t_queries (task c))))"
    if "TweepyCrawler_crawl e c w = Inr (b, c', w')"
  proof -
    from that obtain qs n where
      cq: "crawl_queries e c (t_queries (task c)) 0 w = Inr (qs, n, w')" and
      c': "c' = c\<lparr>task := (task c)\<lparr>t_queries := qs\<rparr>\<rparr>"
      by (auto simp: TweepyCrawler_crawl_def split: sum.splits prod.splits)
    have f: "filter (has_more c) (t_queries (task c))
               = filter (\<lambda>q. q_max_id q \<noteq> PStr ''finished'') (t_queries (task c))"
      by (rule filter_cong) (simp_all add: has_more_historical [OF assms])
    show ?thesis
      using crawl_queries_keeps_finished [OF cq assms] crawl_queries_requests [OF cq] c' assms f
      by simp
  qed
  show ?thesis using a b by blast
qed

theorem finished_query_not_fetched_witness:
  "\<exists>q'. crawl_query env_empty (crawler_t True) query_cats_new (start_world empty_store)
            = Inr (q', False, (start_world empty_store)\<lparr>w_requests :=
                [\<lparr>rq_q = ''cats'', rq_count = 500, rq_lang = Some ''en'', rq_tweet_mode = ''extended'',
                  rq_include_entities = True, rq_result_type = ''recent'', rq_max_id = None,
                  rq_since_id = None\<rparr>]\<rparr>)
        \<and> q_max_id q' = PStr ''finished'' \<and> \<not> has_more (crawler_t True) q'"
proof -
  have h: "historical (crawler_t True)" by (simp add: crawler_t_def)
  from finished_query_not_fetched [OF h, of env_empty query_cats_new "start_world empty_store"]
    next_results_examples(1) [of True]
  show ?thesis by blast
qed

subsection \<open>Failures and sibling tasks\<close>

lemma crawl_round_raises:
  assumes "in_timeout e (c\<lparr>historical := h\<rparr>) w = (False, w1)"
    and "TweepyCrawler_crawl e (c\<lparr>historical := h\<rparr>) w1 = Inl (x, w2)"
  shows "crawl_round e h (c # cs) next_step w = Inl (x, w2)"
  using assms by (simp add: Let_def)

lemma crawl_loop_raises:
  assumes "crawlers \<noteq> []" and "crawl_round e h crawlers [] w = Inl (x, w')"
  shows "crawl_loop e h (Suc fuel) crawlers w = Raised x w'"
  using assms by simp

lemma crawl_users_failure:
  assumes "session_data (w_db w) key = Some user" and "co_expanded user \<noteq> Some True"
    and "crawl_user e language key w = Inl (msg, w')"
  shows "crawl_users e language (key # keys) w =
     (if contains ''status code = 401'' msg \<or> contains ''Not authorized'' msg
      then crawl_users e language keys w'
      else if contains ''status code = 404'' msg
      then crawl_users e language keys w'
      else if contains ''TimeoutError'' msg
      then crawl_users e language keys (sleep (60 * 4) w')
      else Inl (SystemExit, w'\<lparr>w_db := close (w_db w')\<rparr>))"
  using assms by simp

text \<open>
  Claim C9, as the spec states it, fails for the working set of crawlers: nothing in the
  driver loop or in \<open>TweepyCrawler.crawl\<close> catches an exception. With the crawlers of
  tasks \<open>t\<close> and \<open>u\<close> in the working set and an API that rejects the credentials, the
  first fetch of task \<open>t\<close> raises, the whole loop is left with that exception, and no
  request for the query of task \<open>u\<close> is ever issued.
\<close>

theorem unauthorized_aborts_siblings_counterexample:
  "contains ''status code = 401'' ''Twitter error response: status code = 401''
   \<and> is_Raised (CrawlerApp_crawl env_unauthorized False (Suc (Suc (Suc 0))) [task_t, task_u] empty_store)
   \<and> failure (CrawlerApp_crawl env_unauthorized False (Suc (Suc (Suc 0))) [task_t, task_u] empty_store)
       = ApiError ''Twitter error response: status code = 401''
   \<and> map rq_q (w_requests (final
         (CrawlerApp_crawl env_unauthorized False (Suc (Suc (Suc 0))) [task_t, task_u] empty_store)))
       = [''cats'']"
  by (simp add: run_defs)

text \<open>
  Claim C9, amended: in \<open>TwitterUserCrawler.crawl\<close> a failure raised while one user is
  crawled, whose message names status code 401 or \<open>Not authorized\<close>, status code 404,
  or \<open>TimeoutError\<close>, does not abort the users that follow: the loop goes on with them
  (after a sleep of 240 seconds for a timeout), and only a failure with none of these
  marks closes the store and exits the process. In the driver loop over the working set
  of search crawlers no failure is caught: an exception raised inside one crawler's
  \<open>crawl\<close>, of whatever kind, ends the round and the loop, and the crawlers after it
  are not invoked.
\<close>

theorem failure_propagation:
  "(session_data (w_db w) key = Some user \<and> co_expanded user \<noteq> Some True
      \<and> crawl_user e language key w = Inl (msg, w') \<longrightarrow>
       (contains ''status code = 401'' msg \<or> contains ''Not authorized'' msg
          \<or> contains ''status code = 404'' msg
          \<longrightarrow> crawl_users e language (key # keys) w = crawl_users e language keys w')
     \<and> (\<not> contains ''status code = 401'' msg \<and> \<not> contains ''Not authorized'' msg
          \<and> \<not> contains ''status code = 404'' msg \<and> contains ''TimeoutError'' msg
          \<longrightarrow> crawl_users e language (key # keys) w = crawl_users e language keys (sleep 240 w'))
     \<and> (\<not> contains ''status code = 401'' msg \<and> \<not> contains ''Not authorized'' msg
          \<and> \<not> contains ''status code = 404'' msg \<and> \<not> contains ''TimeoutError'' msg
          \<longrightarrow> crawl_users e language (key # keys) w
                = Inl (SystemExit, w'\<lparr>w_db := close (w_db w')\<rparr>)))
   \<and> (in_timeout e (c\<lparr>historical := h\<rparr>) w2 = (False, w3)
        \<and> TweepyCrawler_crawl e (c\<lparr>historical := h\<rparr>) w3 = Inl (x, w4) \<longrightarrow>
          crawl_round e h (c # cs) next_step w2 = Inl (x, w4)
        \<and> crawl_loop e h (Suc fuel) (c # cs) w2 = Raised x w4)"
proof -
  have u: "crawl_users e language (key # keys) w =
     (if contains ''status code = 401'' msg \<or> contains ''Not authorized'' msg
      then crawl_users e language keys w'
      else if contains ''status code = 404'' msg
      then crawl_users e language keys w'
      else if contains ''TimeoutError'' msg
      then crawl_users e language keys (sleep (60 * 4) w')
      else Inl (SystemExit, w'\<lparr>w_db := close (w_db w')\<rparr>))"
    if "session_data (w_db w) key = Some user" "co_expanded user \<noteq> Some True"
      "crawl_user e language key w = Inl (msg, w')"
    using that by (rule crawl_users_failure)
  have d: "crawl_round e h (c # cs) next_step w2 = Inl (x, w4)
        \<and> crawl_loop e h (Suc fuel) (c # cs) w2 = Raised x w4"
    if t: "in_timeout e (c\<lparr>historical := h\<rparr>) w2 = (False, w3)"
      and r: "TweepyCrawler_crawl e (c\<lparr>historical := h\<rparr>) w3 = Inl (x, w4)"
  proof -
    have "crawl_round e h (c # cs) [] w2 = Inl (x, w4)" using t r by (rule crawl_round_raises)
    then have "crawl_loop e h (Suc fuel) (c # cs) w2 = Raised x w4"
      using crawl_loop_raises [of "c # cs"] by blast
    then show ?thesis using crawl_round_raises [OF t r] by simp
  qed
  show ?thesis
  proof (intro conjI impI)
    assume a: "session_data (w_db w) key = Some user \<and> co_expanded user \<noteq> Some True
      \<and> crawl_user e language key w = Inl (msg, w')"
    {
      assume "contains ''status code = 401'' msg \<or> contains ''Not authorized'' msg
          \<or> contains ''status code = 404'' msg"
      then show "crawl_users e language (key # keys) w = crawl_users e language keys w'"
        using u a by auto
    }
    {
      assume "\<not> contains ''status code = 401'' msg \<and> \<not> contains ''Not authorized'' msg
          \<and> \<not> contains ''status code = 404'' msg \<and> contains ''TimeoutError'' msg"
      then show "crawl_users e language (key # keys) w = crawl_users e language keys (sleep 240 w')"
        using u a by auto
    }
    {
      assume "\<not> contains ''status code = 401'' msg \<and> \<not> contains ''Not authorized'' msg
          \<and> \<not> contains ''status code = 404'' msg \<and> \<not> contains ''TimeoutError'' msg"
      then show "crawl_users e language (key # keys) w
                = Inl (SystemExit, w'\<lparr>w_db := close (w_db w')\<rparr>)"
        using u a by auto
    }
  next
    assume "in_timeout e (c\<lparr>historical := h\<rparr>) w2 = (False, w3)
        \<and> TweepyCrawler_crawl e (c\<lparr>historical := h\<rparr>) w3 = Inl (x, w4)"
    then show "crawl_round e h (c # cs) next_step w2 = Inl (x, w4)"
      using d by blast
  next
    assume "in_timeout e (c\<lparr>historical := h\<rparr>) w2 = (False, w3)
        \<and> TweepyCrawler_crawl e (c\<lparr>historical := h\<rparr>) w3 = Inl (x, w4)"
    then show "crawl_loop e h (Suc fuel) (c # cs) w2 = Raised x w4"
      using d by blast
  qed
qed

lemmas user_defs = Let_def crawl_user_def set_user_expanded_def set_user_friends_def timeline_status_def
  status_lang_def add_def merge_object_def insert_row_def update_row_def object_of_row_def
  session_of_def with_session_def commit_session_def commit_def close_def sleep_def
  make_crawl_id_def py_str_def str_of_int_def digit_char_def start_user_world_def
  env_user_401_def env_one_batch_def detect_first_letter_def store_two_users_def empty_store_def
  user_row_def alice_def bob_def status1_def

lemma crawl_user_7_refused:
  "crawl_user env_user_401 ''en'' ''Twitter::user::7'' (start_user_world store_two_users)
     = Inl (''Twitter error response: status code = 401'', start_user_world store_two_users)"
  by (simp add: user_defs)

lemma crawl_users_8_expanded:
  "\<exists>w'. crawl_users env_user_401 ''en'' [''Twitter::user::8''] (start_user_world store_two_users) = Inr w'
     \<and> (\<exists>r. session_data (w_db w') ''Twitter::user::8'' = Some r \<and> co_expanded r = Some True
            \<and> co_document r = UserDoc (bob\<lparr>tu_friends := Some [11, 12]\<rparr>))"
  by (simp add: user_defs)

theorem failure_propagation_witness:
  "\<exists>w'. crawl_users env_user_401 ''en'' [''Twitter::user::7'', ''Twitter::user::8'']
            (start_user_world store_two_users) = Inr w'
     \<and> (\<exists>r. session_data (w_db w') ''Twitter::user::8'' = Some r \<and> co_expanded r = Some True
            \<and> co_document r = UserDoc (bob\<lparr>tu_friends := Some [11, 12]\<rparr>))"
proof -
  have row: "session_data (w_db (start_user_world store_two_users)) ''Twitter::user::7''
               = Some (user_row ''Twitter::user::7'' alice)"
    by (simp add: start_user_world_def store_two_users_def empty_store_def)
  have ne: "co_expanded (user_row ''Twitter::user::7'' alice) \<noteq> Some True"
    by (simp add: user_row_def)
  have c: "contains ''status code = 401'' ''Twitter error response: status code = 401''"
    by simp
  have "crawl_users env_user_401 ''en'' (''Twitter::user::7'' # [''Twitter::user::8''])
          (start_user_world store_two_users)
        = crawl_users env_user_401 ''en'' [''Twitter::user::8''] (start_user_world store_two_users)"
    using failure_propagation [where w = "start_user_world store_two_users"
        and key = "''Twitter::user::7''" and user = "user_row ''Twitter::user::7'' alice"
        and e = env_user_401 and language = "''en''"
        and msg = "''Twitter error response: status code = 401''"
        and w' = "start_user_world store_two_users" and keys = "[''Twitter::user::8'']"]
      row ne crawl_user_7_refused c
    by blast
  with crawl_users_8_expanded show ?thesis by simp
qed

end
